theory Spec2Isabelle
  imports Complex_Main "HOL-Library.Char_ord" "HOL-Library.List_Lexorder"
begin

section \<open>JavaScript values\<close>

text \<open>
  The engine of \<^verbatim>\<open>ClassLevels.js\<close> (functions \<^verbatim>\<open>buildCharacter\<close>,
  \<^verbatim>\<open>computeCharacter\<close>, \<^verbatim>\<open>computeStat\<close>, \<^verbatim>\<open>computeEffect\<close>,
  \<^verbatim>\<open>applyEffect\<close>, the combiners and \<^verbatim>\<open>evaluateCalculation\<close>) works on JavaScript
  numbers, strings and \<^verbatim>\<open>undefined\<close>.

  A number is a double: a rational, one of the two infinities, or NaN. The sign of zero
  is not modelled.
\<close>

datatype jsnum = Fin rat | PInf | NInf | NaN

datatype jsval = VNum jsnum | VStr string | VUndef

subsection \<open>What the host provides\<close>

text \<open>
  What is not code of this repository is a parameter of the model:
  \<^item> \<open>mathEval\<close>, the expression evaluator \<^verbatim>\<open>math.eval\<close> of the mathjs library; its
    exception is \<open>None\<close>. Values it can return that are neither numbers, strings nor
    \<^verbatim>\<open>undefined\<close> are not modelled.
  \<^item> \<open>roundToDouble\<close>, the rounding of the exact result of an arithmetic operation to a
    double (or to an infinity). Where the exact result is known to be a double, see
    \<open>exactDouble\<close>, the model does not ask the host.
  \<^item> \<open>numberToString\<close> and \<open>stringToNumber\<close>, the conversions of the language between
    numbers and strings. The model writes out the conversion of an integer of magnitude
    below \<open>2^53\<close> to its digits, and the conversion of the empty string and of a string
    of at most 15 digits to a number; the host is asked in every other case.
  \<^item> \<open>objectComputed\<close>, the state in which earlier passes have left the realm: see
    \<open>object_computed\<close> in the character model.
\<close>

record js_env =
  mathEval :: "string \<Rightarrow> jsval option"
  roundToDouble :: "rat \<Rightarrow> jsnum"
  numberToString :: "rat \<Rightarrow> string"
  stringToNumber :: "string \<Rightarrow> jsnum"
  objectComputed :: bool

text \<open>
  A multiple of \<open>2^-12\<close> of magnitude below \<open>2^40\<close> has a numerator below \<open>2^52\<close> over the
  denominator \<open>2^12\<close>: it is a double, and an operation whose exact result it is returns it.
\<close>

definition exactDouble :: "rat \<Rightarrow> bool" where
  "exactDouble q = (q * 4096 = of_int \<lfloor>q * 4096\<rfloor> \<and> \<bar>q\<bar> < 2 ^ 40)"

definition toDouble :: "js_env \<Rightarrow> rat \<Rightarrow> jsnum" where
  "toDouble env q = (if exactDouble q then Fin q else roundToDouble env q)"

subsection \<open>Arithmetic\<close>

fun jneg :: "jsnum \<Rightarrow> jsnum" where
  "jneg (Fin a) = Fin (- a)"
| "jneg PInf = NInf"
| "jneg NInf = PInf"
| "jneg NaN = NaN"

fun jadd :: "js_env \<Rightarrow> jsnum \<Rightarrow> jsnum \<Rightarrow> jsnum" where
  "jadd env NaN y = NaN"
| "jadd env x NaN = NaN"
| "jadd env (Fin a) (Fin b) = toDouble env (a + b)"
| "jadd env PInf NInf = NaN"
| "jadd env NInf PInf = NaN"
| "jadd env PInf y = PInf"
| "jadd env x PInf = PInf"
| "jadd env NInf y = NInf"
| "jadd env x NInf = NInf"

definition jsub :: "js_env \<Rightarrow> jsnum \<Rightarrow> jsnum \<Rightarrow> jsnum" where
  "jsub env x y = jadd env x (jneg y)"

text \<open>The sign of a number that is not NaN: \<open>-1\<close>, \<open>0\<close> or \<open>1\<close>.\<close>

fun jsign :: "jsnum \<Rightarrow> int" where
  "jsign (Fin a) = (if a < 0 then - 1 else if a = 0 then 0 else 1)"
| "jsign PInf = 1"
| "jsign NInf = - 1"
| "jsign NaN = 0"

fun jmul :: "js_env \<Rightarrow> jsnum \<Rightarrow> jsnum \<Rightarrow> jsnum" where
  "jmul env NaN y = NaN"
| "jmul env x NaN = NaN"
| "jmul env (Fin a) (Fin b) = toDouble env (a * b)"
| "jmul env x y =
     (if jsign x * jsign y = 0 then NaN else if jsign x * jsign y < 0 then NInf else PInf)"

fun jdiv :: "js_env \<Rightarrow> jsnum \<Rightarrow> jsnum \<Rightarrow> jsnum" where
  "jdiv env NaN y = NaN"
| "jdiv env x NaN = NaN"
| "jdiv env (Fin a) (Fin b) =
     (if b \<noteq> 0 then toDouble env (a / b)
      else if a = 0 then NaN else if a < 0 then NInf else PInf)"
| "jdiv env (Fin a) y = Fin 0"
| "jdiv env x (Fin b) = (if jsign x * jsign (Fin b) < 0 then NInf else PInf)"
| "jdiv env x y = NaN"

text \<open>\<^verbatim>\<open>x < y\<close> on numbers; every comparison with NaN is false.\<close>

fun jlt :: "jsnum \<Rightarrow> jsnum \<Rightarrow> bool" where
  "jlt NaN y = False"
| "jlt x NaN = False"
| "jlt (Fin a) (Fin b) = (a < b)"
| "jlt x NInf = False"
| "jlt PInf y = False"
| "jlt x y = True"

text \<open>\<^verbatim>\<open>Math.floor\<close>: the floor of a double is a double.\<close>

fun jfloor :: "jsnum \<Rightarrow> jsnum" where
  "jfloor (Fin a) = Fin (of_int \<lfloor>a\<rfloor>)"
| "jfloor x = x"

text \<open>\<^verbatim>\<open>isFinite\<close> and truthiness of a number.\<close>

fun jfinite :: "jsnum \<Rightarrow> bool" where
  "jfinite (Fin a) = True"
| "jfinite x = False"

fun jtruthy :: "jsnum \<Rightarrow> bool" where
  "jtruthy (Fin a) = (a \<noteq> 0)"
| "jtruthy NaN = False"
| "jtruthy x = True"

subsection \<open>Conversions\<close>

definition isDigit :: "char \<Rightarrow> bool" where
  "isDigit c = (c \<in> set ''0123456789'')"

fun natToString :: "nat \<Rightarrow> string" where
  "natToString n =
     (if n < 10 then [''0123456789'' ! n]
      else natToString (n div 10) @ [''0123456789'' ! (n mod 10)])"

definition intToString :: "int \<Rightarrow> string" where
  "intToString k = (if k < 0 then CHR ''-'' # natToString (nat (- k)) else natToString (nat k))"

fun numToString :: "js_env \<Rightarrow> jsnum \<Rightarrow> string" where
  "numToString env (Fin a) =
     (if a = of_int \<lfloor>a\<rfloor> \<and> \<bar>a\<bar> < 2 ^ 53 then intToString \<lfloor>a\<rfloor> else numberToString env a)"
| "numToString env PInf = ''Infinity''"
| "numToString env NInf = ''-Infinity''"
| "numToString env NaN = ''NaN''"

fun toString :: "js_env \<Rightarrow> jsval \<Rightarrow> string" where
  "toString env (VNum x) = numToString env x"
| "toString env (VStr s) = s"
| "toString env VUndef = ''undefined''"

definition natOfDigits :: "string \<Rightarrow> nat" where
  "natOfDigits s =
     foldl (\<lambda>n c. 10 * n + length (takeWhile (\<lambda>d. d \<noteq> c) ''0123456789'')) 0 s"

fun toNumber :: "js_env \<Rightarrow> jsval \<Rightarrow> jsnum" where
  "toNumber env (VNum x) = x"
| "toNumber env (VStr s) =
     (if s = [] then Fin 0
      else if list_all isDigit s \<and> length s \<le> 15 then Fin (of_nat (natOfDigits s))
      else stringToNumber env s)"
| "toNumber env VUndef = NaN"

fun isString :: "jsval \<Rightarrow> bool" where
  "isString (VStr s) = True"
| "isString v = False"

text \<open>
  \<^verbatim>\<open>a + b\<close> concatenates when either operand is a string and adds numbers otherwise;
  \<^verbatim>\<open>a * b\<close>, \<^verbatim>\<open>a - b\<close>, \<^verbatim>\<open>a / b\<close> and \<^verbatim>\<open>Math.floor\<close> convert to numbers;
  \<^verbatim>\<open>a < b\<close> compares two strings by their characters and converts to numbers in every
  other case.
\<close>

definition js_add :: "js_env \<Rightarrow> jsval \<Rightarrow> jsval \<Rightarrow> jsval" where
  "js_add env a b =
     (if isString a \<or> isString b then VStr (toString env a @ toString env b)
      else VNum (jadd env (toNumber env a) (toNumber env b)))"

definition js_mul :: "js_env \<Rightarrow> jsval \<Rightarrow> jsval \<Rightarrow> jsnum" where
  "js_mul env a b = jmul env (toNumber env a) (toNumber env b)"

fun js_lt :: "js_env \<Rightarrow> jsval \<Rightarrow> jsval \<Rightarrow> bool" where
  "js_lt env (VStr s) (VStr t) = (s < t)"
| "js_lt env a b = jlt (toNumber env a) (toNumber env b)"

definition js_gt :: "js_env \<Rightarrow> jsval \<Rightarrow> jsval \<Rightarrow> bool" where
  "js_gt env a b = js_lt env b a"

definition js_floor :: "js_env \<Rightarrow> jsval \<Rightarrow> jsnum" where
  "js_floor env a = jfloor (toNumber env a)"

section \<open>The formula tokenizer\<close>

text \<open>
  \<^verbatim>\<open>string.replace(/\b[a-z,1-9]+\b/gi, function(sub){ ... })\<close> in
  \<^verbatim>\<open>evaluateCalculation\<close>. Strings are ASCII here. The class \<^verbatim>\<open>[a-z,1-9]\<close> under the
  flag \<^verbatim>\<open>i\<close> holds the letters of both cases, the comma and the digits 1 to 9; a word
  character (\<^verbatim>\<open>\w\<close>) is a letter, a digit or the underscore; \<^verbatim>\<open>\b\<close> holds between two
  neighbours of which exactly one is a word character, the outside of the string
  counting as none.
\<close>

definition isLower :: "char \<Rightarrow> bool" where
  "isLower c = (c \<in> set ''abcdefghijklmnopqrstuvwxyz'')"

definition isUpper :: "char \<Rightarrow> bool" where
  "isUpper c = (c \<in> set ''ABCDEFGHIJKLMNOPQRSTUVWXYZ'')"

definition isWordChar :: "char \<Rightarrow> bool" where
  "isWordChar c = (isLower c \<or> isUpper c \<or> isDigit c \<or> c = CHR ''_'')"

definition inTokenClass :: "char \<Rightarrow> bool" where
  "inTokenClass c = (isLower c \<or> isUpper c \<or> c = CHR '','' \<or> c \<in> set ''123456789'')"

definition charToLower :: "char \<Rightarrow> char" where
  "charToLower c =
     (case map_of (zip ''ABCDEFGHIJKLMNOPQRSTUVWXYZ'' ''abcdefghijklmnopqrstuvwxyz'') c of
        Some l \<Rightarrow> l | None \<Rightarrow> c)"

definition toLowerCase :: "string \<Rightarrow> string" where
  "toLowerCase s = map charToLower s"

text \<open>A neighbour that may be missing (the ends of the string) is a \<open>char option\<close>.\<close>

fun isWordOpt :: "char option \<Rightarrow> bool" where
  "isWordOpt None = False"
| "isWordOpt (Some c) = isWordChar c"

definition wordBoundary :: "char option \<Rightarrow> char option \<Rightarrow> bool" where
  "wordBoundary l r = (isWordOpt l \<noteq> isWordOpt r)"

definition charAt :: "string \<Rightarrow> nat \<Rightarrow> char option" where
  "charAt s k = (if k < length s then Some (s ! k) else None)"

text \<open>
  A match at the head of \<open>s\<close>, the character before it being \<open>prev\<close>: a boundary in
  front, then the longest run of class characters that ends at a boundary (the greedy
  \<^verbatim>\<open>+\<close> gives characters back until \<^verbatim>\<open>\b\<close> holds). The result is the match's length.
\<close>

definition matchAt :: "char option \<Rightarrow> string \<Rightarrow> nat option" where
  "matchAt prev s =
     (if wordBoundary prev (charAt s 0)
      then find (\<lambda>l. wordBoundary (charAt s (l - 1)) (charAt s l))
             (rev [1 ..< Suc (length (takeWhile inTokenClass s))])
      else None)"

datatype piece = Lit char | Tok string

text \<open>
  The global search: at each position, the match there if there is one, and the search
  goes on behind it; a character no match starts at is copied. \<open>skip\<close> counts the
  characters of the current match still to step over.
\<close>

fun scan :: "char option \<Rightarrow> nat \<Rightarrow> string \<Rightarrow> piece list" where
  "scan prev skip [] = []"
| "scan prev (Suc k) (c # cs) = scan (Some c) k cs"
| "scan prev 0 (c # cs) =
     (case matchAt prev (c # cs) of
        Some l \<Rightarrow> Tok (take l (c # cs)) # scan (Some c) (l - 1) cs
      | None \<Rightarrow> Lit c # scan (Some c) 0 cs)"

definition tokenize :: "string \<Rightarrow> piece list" where
  "tokenize s = scan None 0 s"

section \<open>The character model\<close>

text \<open>
  The objects \<^verbatim>\<open>buildCharacter\<close> creates. A stored effect has the five fields of
  \<^verbatim>\<open>storedEffect\<close>; \<^verbatim>\<open>value\<close> and \<^verbatim>\<open>calculation\<close> may be missing.
\<close>

record effect =
  eff_computed :: bool
  eff_result :: jsval
  operation :: string
  eff_value :: "jsnum option"
  calculation :: "string option"

text \<open>
  The three kinds of stat object differ in their \<^verbatim>\<open>type\<close> field and in the fields they
  own. One record holds the fields of all three; a field the kind does not own keeps its
  initial value, and \<^verbatim>\<open>_.has(stat, field)\<close> is decided by the kind (see \<open>has_base\<close> and
  the tests after it). \<open>stat_min\<close>, \<open>stat_max\<close> and \<open>stat_mod\<close> are the fields
  \<^verbatim>\<open>min\<close>, \<^verbatim>\<open>max\<close> and \<^verbatim>\<open>mod\<close>. The entries of \<open>proficiencies\<close> are the \<^verbatim>\<open>value\<close>
  fields that \<^verbatim>\<open>combineSkill\<close> reads.
\<close>

datatype stat_kind = Attribute | Skill | DamageMultiplier

record stat =
  computed :: bool
  busyComputing :: bool
  stat_type :: stat_kind
  attributeType :: string
  ability :: "string option"
  base :: jsval
  decimal :: bool
  result :: jsval
  stat_mod :: jsnum
  proficiency :: jsnum
  add :: jsval
  mul :: jsnum
  stat_min :: jsval
  stat_max :: jsval
  advantage :: nat
  disadvantage :: nat
  passiveAdd :: jsval
  fail :: nat
  conditional :: nat
  immunityCount :: nat
  ressistanceCount :: nat
  vulnerabilityCount :: nat
  effects :: "effect list"
  proficiencies :: "jsnum list"

definition has_base :: "stat \<Rightarrow> bool" where
  "has_base s = (stat_type s = Attribute)"

definition has_accumulators :: "stat \<Rightarrow> bool" where
  \<comment> \<open>\<^verbatim>\<open>add\<close>, \<^verbatim>\<open>mul\<close>, \<^verbatim>\<open>min\<close>, \<^verbatim>\<open>max\<close>: attributes and skills\<close>
  "has_accumulators s = (stat_type s \<noteq> DamageMultiplier)"

definition has_counters :: "stat \<Rightarrow> bool" where
  \<comment> \<open>\<^verbatim>\<open>advantage\<close>, \<^verbatim>\<open>disadvantage\<close>, \<^verbatim>\<open>passiveAdd\<close>, \<^verbatim>\<open>fail\<close>, \<^verbatim>\<open>conditional\<close>: skills\<close>
  "has_counters s = (stat_type s = Skill)"

text \<open>
  The \<^verbatim>\<open>char\<close> object: three dictionaries of stats and one of class levels, as association
  lists in insertion order (the order \<^verbatim>\<open>for ... in\<close> enumerates), and the total level.
  Two more components are not fields of \<^verbatim>\<open>char\<close> but variables of the realm the engine
  writes to:
  \<^item> \<open>global_i\<close> is the variable \<^verbatim>\<open>i\<close> of the loops \<^verbatim>\<open>for (i in stat.effects)\<close> and
    \<^verbatim>\<open>for (i in stat.proficiencies)\<close>: it is declared nowhere, so it is one global variable
    shared by every activation of \<^verbatim>\<open>computeStat\<close> and \<^verbatim>\<open>combineSkill\<close> (the code runs as
    non-strict JavaScript, as its other undeclared names require; in strict code the first
    round of either loop would raise a ReferenceError).
  \<^item> \<open>object_computed\<close> is the property \<^verbatim>\<open>computed\<close> of the function \<^verbatim>\<open>Object\<close>. The
    dictionaries are plain objects, so \<^verbatim>\<open>char.atts["constructor"]\<close> is that function
    unless the character has an attribute of this name, and \<^verbatim>\<open>computeStat\<close> called on it
    (see \<open>resolve\<close>) sets the property. \<open>objectComputed\<close> is its value before the pass.

  The names that come from the documents of the database (variable names, the stat of an
  effect, the ability of a skill, the names of classes and proficiencies) are taken not to
  be names of properties of \<^verbatim>\<open>Object.prototype\<close> and not to look like array indices,
  which \<^verbatim>\<open>for ... in\<close> enumerates before the other keys; the tokens of a formula are not
  so restricted.
\<close>

record state =
  atts :: "(string \<times> stat) list"
  skills :: "(string \<times> stat) list"
  dms :: "(string \<times> stat) list"
  classes :: "(string \<times> jsnum) list"
  level :: jsnum
  global_i :: nat
  object_computed :: bool

text \<open>The objects \<^verbatim>\<open>computeStat\<close> is called on: a stat of the character, or the function \<^verbatim>\<open>Object\<close>.\<close>

datatype statref = AttRef string | SkillRef string | DmRef string | ObjectRef

fun alist_put :: "string \<Rightarrow> 'a \<Rightarrow> (string \<times> 'a) list \<Rightarrow> (string \<times> 'a) list" where
  "alist_put k v [] = [(k, v)]"
| "alist_put k v ((k', v') # xs) =
     (if k = k' then (k, v) # xs else (k', v') # alist_put k v xs)"

fun get_stat :: "state \<Rightarrow> statref \<Rightarrow> stat option" where
  "get_stat st (AttRef k) = map_of (atts st) k"
| "get_stat st (SkillRef k) = map_of (skills st) k"
| "get_stat st (DmRef k) = map_of (dms st) k"
| "get_stat st ObjectRef = None"

fun put_stat :: "statref \<Rightarrow> stat \<Rightarrow> state \<Rightarrow> state" where
  "put_stat (AttRef k) s st = st\<lparr>atts := alist_put k s (atts st)\<rparr>"
| "put_stat (SkillRef k) s st = st\<lparr>skills := alist_put k s (skills st)\<rparr>"
| "put_stat (DmRef k) s st = st\<lparr>dms := alist_put k s (dms st)\<rparr>"
| "put_stat ObjectRef s st = st"

text \<open>
  The value of \<^verbatim>\<open>char.atts[k]\<close>, \<^verbatim>\<open>char.skills[k]\<close> and \<^verbatim>\<open>char.dms[k]\<close> for a key that
  \<^verbatim>\<open>Object.prototype\<close> does not have: the object, or \<^verbatim>\<open>undefined\<close>.
\<close>

definition att_ref :: "state \<Rightarrow> string \<Rightarrow> statref option" where
  "att_ref st k = (if map_of (atts st) k = None then None else Some (AttRef k))"

definition skill_ref :: "state \<Rightarrow> string \<Rightarrow> statref option" where
  "skill_ref st k = (if map_of (skills st) k = None then None else Some (SkillRef k))"

definition dm_ref :: "state \<Rightarrow> string \<Rightarrow> statref option" where
  "dm_ref st k = (if map_of (dms st) k = None then None else Some (DmRef k))"

subsection \<open>buildCharacter\<close>

text \<open>The documents the six queries of \<^verbatim>\<open>buildCharacter\<close> return, in cursor order.\<close>

record raw_attribute =
  att_variableName :: string
  att_type :: string
  att_baseValue :: "jsnum option"
  att_decimal :: bool

record raw_skill =
  skill_variableName :: string
  skill_ability :: "string option"

record raw_class =
  class_name :: string
  class_level :: jsnum

record raw_effect =
  effect_stat :: string
  effect_operation :: string
  effect_value :: "jsnum option"
  effect_calculation :: "string option"
  effect_enabled :: bool

record raw_proficiency =
  prof_name :: string
  prof_value :: jsnum
  prof_type :: string
  prof_enabled :: bool

record database =
  Attributes :: "raw_attribute list"
  Skills :: "raw_skill list"
  DamageMultipliers :: "string list"
  Classes :: "raw_class list"
  Effects :: "raw_effect list"
  Proficiencies :: "raw_proficiency list"

text \<open>What a function raises. Running out of call stack is not an \<open>error\<close>: see \<open>computeStat\<close>.\<close>

datatype error = TypeError | ReferenceError

definition blank_stat :: "stat_kind \<Rightarrow> stat" where
  "blank_stat k =
     \<lparr>computed = False, busyComputing = False, stat_type = k, attributeType = [],
      ability = None, base = VNum (Fin 0), decimal = False, result = VNum (Fin 0),
      stat_mod = Fin 0, proficiency = Fin 0, add = VNum (Fin 0), mul = Fin 1,
      stat_min = VNum NInf, stat_max = VNum PInf, advantage = 0, disadvantage = 0,
      passiveAdd = VNum (Fin 0), fail = 0, conditional = 0, immunityCount = 0,
      ressistanceCount = 0, vulnerabilityCount = 0, effects = [], proficiencies = []\<rparr>"

definition new_attribute :: "raw_attribute \<Rightarrow> stat" where
  \<comment> \<open>\<^verbatim>\<open>base: attribute.baseValue || 0\<close>\<close>
  "new_attribute a =
     (blank_stat Attribute)
       \<lparr>attributeType := att_type a,
        base := (case att_baseValue a of
                   Some b \<Rightarrow> if jtruthy b then VNum b else VNum (Fin 0)
                 | None \<Rightarrow> VNum (Fin 0)),
        decimal := att_decimal a\<rparr>"

definition new_skill :: "raw_skill \<Rightarrow> stat" where
  "new_skill k = (blank_stat Skill)\<lparr>ability := skill_ability k\<rparr>"

definition new_damage_multiplier :: stat where
  "new_damage_multiplier = blank_stat DamageMultiplier"

definition add_attribute :: "raw_attribute \<Rightarrow> state \<Rightarrow> state" where
  "add_attribute a st =
     (if map_of (atts st) (att_variableName a) = None
      then st\<lparr>atts := atts st @ [(att_variableName a, new_attribute a)]\<rparr> else st)"

definition add_skill :: "raw_skill \<Rightarrow> state \<Rightarrow> state" where
  "add_skill k st =
     (if map_of (skills st) (skill_variableName k) = None
      then st\<lparr>skills := skills st @ [(skill_variableName k, new_skill k)]\<rparr> else st)"

definition add_damage_multiplier :: "string \<Rightarrow> state \<Rightarrow> state" where
  "add_damage_multiplier k st =
     (if map_of (dms st) k = None
      then st\<lparr>dms := dms st @ [(k, new_damage_multiplier)]\<rparr> else st)"

definition add_class :: "js_env \<Rightarrow> raw_class \<Rightarrow> state \<Rightarrow> state" where
  "add_class env c st =
     (if map_of (classes st) (class_name c) = None
      then st\<lparr>classes := classes st @ [(class_name c, class_level c)],
              level := jadd env (level st) (class_level c)\<rparr>
      else st)"

definition stored_effect :: "raw_effect \<Rightarrow> effect" where
  "stored_effect e =
     \<lparr>eff_computed = False, eff_result = VNum (Fin 0), operation = effect_operation e,
      eff_value = effect_value e, calculation = effect_calculation e\<rparr>"

definition push_effect :: "effect \<Rightarrow> stat \<Rightarrow> stat" where
  "push_effect e s = s\<lparr>effects := effects s @ [e]\<rparr>"

definition add_effect :: "raw_effect \<Rightarrow> state \<Rightarrow> state" where
  "add_effect e st =
     (case map_of (atts st) (effect_stat e) of
        Some s \<Rightarrow> put_stat (AttRef (effect_stat e)) (push_effect (stored_effect e) s) st
      | None \<Rightarrow>
     (case map_of (skills st) (effect_stat e) of
        Some s \<Rightarrow> put_stat (SkillRef (effect_stat e)) (push_effect (stored_effect e) s) st
      | None \<Rightarrow>
     (case map_of (dms st) (effect_stat e) of
        Some s \<Rightarrow> put_stat (DmRef (effect_stat e)) (push_effect (stored_effect e) s) st
      | None \<Rightarrow> st)))"

text \<open>
  The last loop of \<^verbatim>\<open>buildCharacter\<close>:
  \<^verbatim>\<open>if (char.skills[proficiency.name]) { char.skills[proficiency.name].proficiencies.push(effect); }\<close>
  The name \<^verbatim>\<open>effect\<close> is the parameter of the callback of the loop before and is not in
  scope here; evaluating it raises a ReferenceError, before anything is pushed.
\<close>

fun add_proficiencies :: "raw_proficiency list \<Rightarrow> state \<Rightarrow> error + state" where
  "add_proficiencies [] st = Inr st"
| "add_proficiencies (p # ps) st =
     (if map_of (skills st) (prof_name p) = None then add_proficiencies ps st
      else Inl ReferenceError)"

definition empty_character :: "js_env \<Rightarrow> state" where
  "empty_character env =
     \<lparr>atts = [], skills = [], dms = [], classes = [], level = Fin 0, global_i = 0,
      object_computed = objectComputed env\<rparr>"

definition selected_proficiencies :: "database \<Rightarrow> raw_proficiency list" where
  \<comment> \<open>\<^verbatim>\<open>enabled: true, type: {$in: ["skill", "save"]}\<close>\<close>
  "selected_proficiencies db =
     filter (\<lambda>p. prof_enabled p \<and> prof_type p \<in> set [''skill'', ''save''])
       (Proficiencies db)"

definition buildCharacter :: "js_env \<Rightarrow> database \<Rightarrow> error + state" where
  "buildCharacter env db =
     add_proficiencies (selected_proficiencies db)
       (fold add_effect (filter effect_enabled (Effects db))
         (fold (add_class env) (Classes db)
           (fold add_damage_multiplier (DamageMultipliers db)
             (fold add_skill (Skills db)
               (fold add_attribute (Attributes db) (empty_character env))))))"

text \<open>No skill of the character has a proficiency attached.\<close>

definition unattached :: "state \<Rightarrow> bool" where
  "unattached st = list_all (\<lambda>x. proficiencies (snd x) = []) (skills st)"

section \<open>The engine\<close>

text \<open>
  A call returns a value, raises an \<open>error\<close>, or does not return because the nesting of
  \<^verbatim>\<open>computeStat\<close> calls never ends (in JavaScript the call stack runs out): \<open>None\<close>.
\<close>

type_synonym 'a outcome = "(error + 'a) option"

definition ret :: "'a \<Rightarrow> 'a outcome" where
  "ret x = Some (Inr x)"

definition throw :: "error \<Rightarrow> 'a outcome" where
  "throw e = Some (Inl e)"

definition andThen :: "'a outcome \<Rightarrow> ('a \<Rightarrow> 'b outcome) \<Rightarrow> 'b outcome" where
  "andThen m f = (case m of None \<Rightarrow> None | Some (Inl e) \<Rightarrow> Some (Inl e) | Some (Inr x) \<Rightarrow> f x)"

text \<open>Reading a field of an object that is \<^verbatim>\<open>undefined\<close> raises a TypeError.\<close>

definition withStat :: "state \<Rightarrow> statref \<Rightarrow> (stat \<Rightarrow> 'a outcome) \<Rightarrow> 'a outcome" where
  "withStat st r f = (case get_stat st r of None \<Rightarrow> throw TypeError | Some s \<Rightarrow> f s)"

definition effectAt :: "stat \<Rightarrow> nat \<Rightarrow> effect option" where
  \<comment> \<open>\<^verbatim>\<open>stat.effects[i]\<close>\<close>
  "effectAt s k = (if k < length (effects s) then Some (effects s ! k) else None)"

text \<open>
  The recursive call \<^verbatim>\<open>computeStat(x, char)\<close> is the parameter \<open>force\<close> of the functions
  below; \<open>computeStat\<close> closes the recursion. Its first argument is the object passed,
  or \<open>None\<close> when the source passes \<^verbatim>\<open>undefined\<close>.
\<close>

type_synonym forcer = "statref option \<Rightarrow> state \<Rightarrow> state outcome"

subsection \<open>applyEffect\<close>

text \<open>
  The source is three \<^verbatim>\<open>if\<close> chains on \<^verbatim>\<open>effect.operation\<close>, one after the other; the
  operations exclude each other, so one chain does the same. In the \<^verbatim>\<open>mul\<close> branch the
  damage multiplier case reads the variable \<^verbatim>\<open>value\<close>, which nothing declares.
\<close>

definition applyEffect :: "js_env \<Rightarrow> effect \<Rightarrow> stat \<Rightarrow> error + stat" where
  "applyEffect env e s =
     (if operation e = ''base'' then
        (if \<not> has_base s then Inr s
         else Inr (s\<lparr>base := (if js_gt env (eff_result e) (base s) then eff_result e else base s)\<rparr>))
      else if operation e = ''add'' then
        (if \<not> has_accumulators s then Inr s
         else Inr (s\<lparr>add := js_add env (add s) (eff_result e)\<rparr>))
      else if operation e = ''mul'' then
        (if \<not> has_accumulators s then Inr s
         else if stat_type s = DamageMultiplier then Inl ReferenceError
         else Inr (s\<lparr>mul := js_mul env (VNum (mul s)) (eff_result e)\<rparr>))
      else if operation e = ''min'' then
        (if \<not> has_accumulators s then Inr s
         else Inr (s\<lparr>stat_min :=
                 (if js_gt env (eff_result e) (stat_min s) then eff_result e else stat_min s)\<rparr>))
      else if operation e = ''max'' then
        (if \<not> has_accumulators s then Inr s
         else Inr (s\<lparr>stat_max :=
                 (if js_lt env (eff_result e) (stat_max s) then eff_result e else stat_max s)\<rparr>))
      else if operation e = ''advantage'' then
        (if \<not> has_counters s then Inr s else Inr (s\<lparr>advantage := advantage s + 1\<rparr>))
      else if operation e = ''disadvantage'' then
        (if \<not> has_counters s then Inr s else Inr (s\<lparr>disadvantage := disadvantage s + 1\<rparr>))
      else if operation e = ''passiveAdd'' then
        (if \<not> has_counters s then Inr s
         else Inr (s\<lparr>passiveAdd := js_add env (passiveAdd s) (eff_result e)\<rparr>))
      else if operation e = ''fail'' then
        (if \<not> has_counters s then Inr s else Inr (s\<lparr>fail := fail s + 1\<rparr>))
      else if operation e = ''conditional'' then
        (if \<not> has_counters s then Inr s else Inr (s\<lparr>conditional := conditional s + 1\<rparr>))
      else Inr s)"

text \<open>
  \<^verbatim>\<open>applyEffect(stat.effects[i], stat)\<close> as \<^verbatim>\<open>computeStat\<close> calls it, \<open>j\<close> being the value
  of the global \<^verbatim>\<open>i\<close> at that moment: \<^verbatim>\<open>effect.operation\<close> raises when there is no such
  element.
\<close>

definition applyEffectAt :: "js_env \<Rightarrow> statref \<Rightarrow> nat \<Rightarrow> state \<Rightarrow> state outcome" where
  "applyEffectAt env r j st =
     withStat st r (\<lambda>s.
       case effectAt s j of
         None \<Rightarrow> throw TypeError
       | Some e \<Rightarrow>
           (case applyEffect env e s of
              Inl err \<Rightarrow> throw err
            | Inr s' \<Rightarrow> ret (put_stat r s' st)))"

subsection \<open>The combiners of attributes and damage multipliers\<close>

definition combineAttribute :: "js_env \<Rightarrow> stat \<Rightarrow> stat" where
  "combineAttribute env s =
     (let r0 = VNum (js_mul env (js_add env (base s) (add s)) (VNum (mul s)));
          r1 = (if js_lt env r0 (stat_min s) then stat_min s else r0);
          r2 = (if js_gt env r1 (stat_max s) then stat_max s else r1);
          r3 = (if \<not> decimal s then VNum (js_floor env r2) else r2);
          s' = s\<lparr>result := r3\<rparr>
      in if attributeType s = ''ability''
         then s'\<lparr>stat_mod := jfloor (jdiv env (jsub env (toNumber env r3) (Fin 10)) (Fin 2))\<rparr>
         else s')"

text \<open>\<^verbatim>\<open>if (stat.immunityCount) return 0;\<close> leaves the stat as it is.\<close>

definition combineDamageMultiplier :: "stat \<Rightarrow> stat" where
  "combineDamageMultiplier s =
     (if immunityCount s \<noteq> 0 then s
      else if ressistanceCount s \<noteq> 0 \<and> vulnerabilityCount s = 0
        then s\<lparr>result := VNum (Fin (1 / 2))\<rparr>
      else if ressistanceCount s = 0 \<and> vulnerabilityCount s \<noteq> 0
        then s\<lparr>result := VNum (Fin 2)\<rparr>
      else s\<lparr>result := VNum (Fin 1)\<rparr>)"

subsection \<open>evaluateCalculation\<close>

text \<open>
  The tests of the callback on the lowercased token: \<^verbatim>\<open>/^\w+mod$/\<close> with
  \<^verbatim>\<open>sub.slice(0, -3)\<close>, and \<^verbatim>\<open>/^\w+levels?$/\<close> with \<^verbatim>\<open>sub.replace(/levels?$/, "")\<close>.
\<close>

definition endsWith :: "string \<Rightarrow> string \<Rightarrow> bool" where
  "endsWith s suffix =
     (length suffix \<le> length s \<and> drop (length s - length suffix) s = suffix)"

definition dropLast :: "nat \<Rightarrow> string \<Rightarrow> string" where
  "dropLast n s = take (length s - n) s"

definition isModifierName :: "string \<Rightarrow> bool" where
  "isModifierName sub =
     (endsWith sub ''mod'' \<and> dropLast 3 sub \<noteq> [] \<and> list_all isWordChar (dropLast 3 sub))"

definition className :: "string \<Rightarrow> string" where
  "className sub =
     (if endsWith sub ''levels'' then dropLast 6 sub
      else if endsWith sub ''level'' then dropLast 5 sub else sub)"

definition isClassLevelName :: "string \<Rightarrow> bool" where
  "isClassLevelName sub =
     ((endsWith sub ''levels'' \<or> endsWith sub ''level'')
      \<and> className sub \<noteq> [] \<and> list_all isWordChar (className sub))"

text \<open>
  The names of the properties every plain object inherits from \<^verbatim>\<open>Object.prototype\<close>.
  The lowercased token of a formula can spell the first one only (lemma
  \<open>inherited_key_of_token\<close>), so \<open>resolve\<close> has no case for the others.
\<close>

definition inheritedKeys :: "string list" where
  "inheritedKeys =
     [''constructor'', ''hasOwnProperty'', ''isPrototypeOf'', ''propertyIsEnumerable'',
      ''toLocaleString'', ''toString'', ''valueOf'', ''__defineGetter__'', ''__defineSetter__'',
      ''__lookupGetter__'', ''__lookupSetter__'', ''__proto__'']"

text \<open>
  Which branch of the callback a lowercased token takes. The tests only look at which
  keys exist, so they are taken before the branch is run. \<^verbatim>\<open>char.atts[sub]\<close> is truthy
  for an attribute of the character and for the key \<^verbatim>\<open>constructor\<close>, where it is the
  function \<^verbatim>\<open>Object\<close>: \<open>ToObject\<close> in the first test, \<open>ToObjectModifier\<close> in the test on
  the slice. A token \<^verbatim>\<open>constructor\<close> never gets past the first test, so the tests on the
  skills and damage multipliers see own keys only.
\<close>

datatype resolution =
  ToAttribute string | ToObject | ToModifier string | ToObjectModifier
  | ToSkill string | ToDamageMultiplier string | ToClassLevel string | ToLevel | GiveUp

definition resolve :: "state \<Rightarrow> string \<Rightarrow> resolution" where
  "resolve st sub =
     (if map_of (atts st) sub \<noteq> None then ToAttribute sub
      else if sub = ''constructor'' then ToObject
      else if isModifierName sub \<and> map_of (atts st) (dropLast 3 sub) \<noteq> None
        then ToModifier (dropLast 3 sub)
      else if isModifierName sub \<and> dropLast 3 sub = ''constructor'' then ToObjectModifier
      else if map_of (skills st) sub \<noteq> None then ToSkill sub
      else if map_of (dms st) sub \<noteq> None then ToDamageMultiplier sub
      else if isClassLevelName sub then ToClassLevel (className sub)
      else if sub = ''level'' then ToLevel
      else GiveUp)"

text \<open>
  \<^verbatim>\<open>if (!x.computed) computeStat(arg, char); return x.field\<close>, where \<open>r\<close> is the object
  \<^verbatim>\<open>x\<close> and \<open>arg\<close> the object passed to \<^verbatim>\<open>computeStat\<close>.
\<close>

definition forceThenRead ::
  "forcer \<Rightarrow> statref \<Rightarrow> statref option \<Rightarrow> (stat \<Rightarrow> jsval) \<Rightarrow> state \<Rightarrow> (state \<times> jsval) outcome"
where
  "forceThenRead force r arg field st =
     withStat st r (\<lambda>s.
       andThen (if \<not> computed s then force arg st else ret st) (\<lambda>st'.
         withStat st' r (\<lambda>s'. ret (st', field s'))))"

text \<open>
  The callback. In the modifier branch the source tests \<^verbatim>\<open>char.atts[slice].computed\<close> and
  then calls \<^verbatim>\<open>computeStat(char.atts[sub], char)\<close>, with \<^verbatim>\<open>sub\<close> and not \<^verbatim>\<open>slice\<close>; it
  returns \<^verbatim>\<open>char.atts[slice].mod || NaN\<close>. The function \<^verbatim>\<open>Object\<close> has no property
  \<^verbatim>\<open>result\<close> and no property \<^verbatim>\<open>mod\<close>: the two branches that read it return
  \<^verbatim>\<open>undefined\<close> and NaN. A class is looked up by the token without its suffix; the
  function that \<^verbatim>\<open>char.classes["constructor"]\<close> is has no property \<^verbatim>\<open>level\<close>, so this key
  gives the token like a missing class does.
\<close>

definition replacer :: "forcer \<Rightarrow> string \<Rightarrow> state \<Rightarrow> (state \<times> jsval) outcome" where
  "replacer force tok st =
     (let sub = toLowerCase tok in
      case resolve st sub of
        ToAttribute k \<Rightarrow> forceThenRead force (AttRef k) (att_ref st k) result st
      | ToObject \<Rightarrow>
          andThen (if \<not> object_computed st then force (Some ObjectRef) st else ret st)
            (\<lambda>st'. ret (st', VUndef))
      | ToObjectModifier \<Rightarrow>
          andThen (if \<not> object_computed st then force (att_ref st sub) st else ret st)
            (\<lambda>st'. ret (st', VNum NaN))
      | ToModifier slice \<Rightarrow>
          forceThenRead force (AttRef slice) (att_ref st sub)
            (\<lambda>s. VNum (if jtruthy (stat_mod s) then stat_mod s else NaN)) st
      | ToSkill k \<Rightarrow> forceThenRead force (SkillRef k) (skill_ref st k) result st
      | ToDamageMultiplier k \<Rightarrow> forceThenRead force (DmRef k) (dm_ref st k) result st
      | ToClassLevel c \<Rightarrow>
          ret (st, case map_of (classes st) c of
                     Some l \<Rightarrow> if jtruthy l then VNum l else VStr sub
                   | None \<Rightarrow> VStr sub)
      | ToLevel \<Rightarrow> ret (st, VNum (level st))
      | GiveUp \<Rightarrow> ret (st, VStr sub))"

text \<open>The replacement: the callback runs on the matches from left to right.\<close>

fun replaceAll :: "js_env \<Rightarrow> forcer \<Rightarrow> piece list \<Rightarrow> state \<Rightarrow> (state \<times> string) outcome" where
  "replaceAll env force [] st = ret (st, [])"
| "replaceAll env force (Lit c # ps) st =
     andThen (replaceAll env force ps st) (\<lambda>(st', rest). ret (st', c # rest))"
| "replaceAll env force (Tok t # ps) st =
     andThen (replacer force t st) (\<lambda>(st1, v).
       andThen (replaceAll env force ps st1) (\<lambda>(st2, rest). ret (st2, toString env v @ rest)))"

definition evaluateCalculation ::
  "js_env \<Rightarrow> forcer \<Rightarrow> string \<Rightarrow> state \<Rightarrow> (state \<times> jsval) outcome" where
  "evaluateCalculation env force string st =
     (if string = [] then ret (st, VStr string)
      else andThen (replaceAll env force (tokenize string) st) (\<lambda>(st', substituted).
             ret (st', case mathEval env substituted of
                         Some v \<Rightarrow> v
                       | None \<Rightarrow> VStr substituted)))"

subsection \<open>computeEffect\<close>

text \<open>
  The value \<^verbatim>\<open>computeEffect\<close> stores in \<^verbatim>\<open>effect.result\<close>; when no branch applies the
  field keeps its value.
\<close>

definition effectResult ::
  "js_env \<Rightarrow> forcer \<Rightarrow> effect \<Rightarrow> state \<Rightarrow> (state \<times> jsval) outcome" where
  "effectResult env force e st =
     (case (case eff_value e of Some v \<Rightarrow> if jfinite v then Some v else None | None \<Rightarrow> None) of
        Some v \<Rightarrow> ret (st, VNum v)
      | None \<Rightarrow>
          if operation e = ''conditional''
            then ret (st, case calculation e of Some c \<Rightarrow> VStr c | None \<Rightarrow> VUndef)
          else if operation e \<in> set [''advantage'', ''disadvantage'', ''fail'']
            then ret (st, VNum (Fin 1))
          else (case calculation e of
                  Some c \<Rightarrow> evaluateCalculation env force c st
                | None \<Rightarrow> ret (st, eff_result e)))"

definition setEffect :: "statref \<Rightarrow> nat \<Rightarrow> jsval \<Rightarrow> state \<Rightarrow> state outcome" where
  \<comment> \<open>\<^verbatim>\<open>effect.result = v; effect.computed = true\<close> on the effect \<open>k\<close> of the stat\<close>
  "setEffect r k v st =
     withStat st r (\<lambda>s.
       ret (put_stat r
             (s\<lparr>effects := (effects s)[k := (effects s ! k)\<lparr>eff_result := v, eff_computed := True\<rparr>]\<rparr>)
             st))"

definition computeEffect :: "js_env \<Rightarrow> forcer \<Rightarrow> statref \<Rightarrow> nat \<Rightarrow> state \<Rightarrow> state outcome" where
  "computeEffect env force r k st =
     withStat st r (\<lambda>s.
       case effectAt s k of
         None \<Rightarrow> throw TypeError
       | Some e \<Rightarrow>
           if eff_computed e then ret st
           else andThen (effectResult env force e st) (\<lambda>(st', v). setEffect r k v st'))"

subsection \<open>combineSkill\<close>

text \<open>
  The loop over \<^verbatim>\<open>stat.proficiencies\<close> keeps the largest value and leaves the last index
  in the global \<^verbatim>\<open>i\<close>. The proficiency bonus is looked up under the key
  \<^verbatim>\<open>proificiencyBonus\<close> in the test and under \<^verbatim>\<open>proficiencyBonus\<close> in the branch.
\<close>

definition largestProficiency :: "jsnum list \<Rightarrow> jsnum \<Rightarrow> jsnum" where
  "largestProficiency ps p0 = fold (\<lambda>v p. if jlt p v then v else p) ps p0"

definition profBonus :: "js_env \<Rightarrow> forcer \<Rightarrow> state \<Rightarrow> (state \<times> jsval) outcome" where
  "profBonus env force st =
     (if map_of (skills st) ''proificiencyBonus'' \<noteq> None then
        (case skill_ref st ''proficiencyBonus'' of
           None \<Rightarrow> throw TypeError
         | Some pb \<Rightarrow> forceThenRead force pb (Some pb) result st)
      else ret (st, VNum (jfloor (jadd env (jdiv env (level st) (Fin 4)) (Fin (7 / 4))))))"

definition abilityMod :: "forcer \<Rightarrow> stat \<Rightarrow> state \<Rightarrow> (state \<times> jsval) outcome" where
  "abilityMod force s st =
     (case ability s of
        None \<Rightarrow> ret (st, VNum (Fin 0))
      | Some a \<Rightarrow>
          if a \<noteq> [] \<and> map_of (atts st) a \<noteq> None
          then forceThenRead force (AttRef a) (att_ref st a) (\<lambda>x. VNum (stat_mod x)) st
          else ret (st, VNum (Fin 0)))"

definition skillResult :: "js_env \<Rightarrow> jsval \<Rightarrow> jsnum \<Rightarrow> stat \<Rightarrow> stat" where
  "skillResult env am pb s =
     (let r0 = VNum (js_mul env (js_add env (js_add env am (VNum pb)) (add s)) (VNum (mul s)));
          r1 = (if js_lt env r0 (stat_min s) then stat_min s else r0);
          r2 = (if js_gt env r1 (stat_max s) then stat_max s else r1)
      in s\<lparr>result := VNum (js_floor env r2)\<rparr>)"

definition proficiencyLoop :: "statref \<Rightarrow> stat \<Rightarrow> state \<Rightarrow> state" where
  "proficiencyLoop r s0 st =
     put_stat r (s0\<lparr>proficiency := largestProficiency (proficiencies s0) (proficiency s0)\<rparr>)
       (if proficiencies s0 = [] then st else st\<lparr>global_i := length (proficiencies s0) - 1\<rparr>)"

definition combineSkill :: "js_env \<Rightarrow> forcer \<Rightarrow> statref \<Rightarrow> state \<Rightarrow> state outcome" where
  "combineSkill env force r st =
     withStat st r (\<lambda>s0.
       let st1 = proficiencyLoop r s0 st
       in andThen (profBonus env force st1) (\<lambda>(st2, bonus).
            withStat st2 r (\<lambda>s2.
              let pb = js_mul env bonus (VNum (proficiency s2))
              in andThen (abilityMod force s2 st2) (\<lambda>(st3, am).
                   withStat st3 r (\<lambda>s3. ret (put_stat r (skillResult env am pb s3) st3))))))"

subsection \<open>combineStat, computeStat, computeCharacter\<close>

definition combineStat :: "js_env \<Rightarrow> forcer \<Rightarrow> statref \<Rightarrow> state \<Rightarrow> state outcome" where
  "combineStat env force r st =
     withStat st r (\<lambda>s.
       case stat_type s of
         Attribute \<Rightarrow> ret (put_stat r (combineAttribute env s) st)
       | Skill \<Rightarrow> combineSkill env force r st
       | DamageMultiplier \<Rightarrow> ret (put_stat r (combineDamageMultiplier s) st))"

text \<open>
  \<^verbatim>\<open>for (i in stat.effects) { computeEffect(stat.effects[i], char); applyEffect(stat.effects[i], stat); }\<close>
  The loop sets the global \<^verbatim>\<open>i\<close> to the next index; the second \<^verbatim>\<open>stat.effects[i]\<close> reads
  the global again, after \<^verbatim>\<open>computeEffect\<close> has returned.
\<close>

fun effectsLoop :: "js_env \<Rightarrow> forcer \<Rightarrow> statref \<Rightarrow> nat list \<Rightarrow> state \<Rightarrow> state outcome" where
  "effectsLoop env force r [] st = ret st"
| "effectsLoop env force r (k # ks) st =
     andThen (computeEffect env force r k (st\<lparr>global_i := k\<rparr>)) (\<lambda>st1.
       andThen (applyEffectAt env r (global_i st1) st1) (\<lambda>st2.
         effectsLoop env force r ks st2))"

definition computeStatBody :: "js_env \<Rightarrow> forcer \<Rightarrow> statref option \<Rightarrow> state \<Rightarrow> state outcome" where
  "computeStatBody env force arg st =
     (case arg of
        None \<Rightarrow> throw TypeError
      | Some r \<Rightarrow>
          if r = ObjectRef then ret (st\<lparr>object_computed := True\<rparr>)
          else
          withStat st r (\<lambda>s.
            if computed s then ret st
            else if busyComputing s
              then ret (put_stat r (s\<lparr>computed := True, result := VNum NaN, busyComputing := False\<rparr>) st)
            else
              andThen (effectsLoop env force r [0 ..< length (effects s)] st) (\<lambda>st1.
                andThen (combineStat env force r st1) (\<lambda>st2.
                  withStat st2 r (\<lambda>s2.
                    ret (put_stat r (s2\<lparr>computed := True, busyComputing := False\<rparr>) st2))))))"

text \<open>
  \<open>computeStat env n\<close> is \<^verbatim>\<open>computeStat\<close> with room for \<open>n\<close> nested activations of
  itself on the call stack. Called on the function \<^verbatim>\<open>Object\<close>, which has none of the fields
  of a stat, it finds nothing to loop over and nothing to combine, and sets the property
  \<^verbatim>\<open>computed\<close> of the function.
\<close>

fun computeStat :: "js_env \<Rightarrow> nat \<Rightarrow> statref option \<Rightarrow> state \<Rightarrow> state outcome" where
  "computeStat env 0 arg st = None"
| "computeStat env (Suc n) arg st = computeStatBody env (computeStat env n) arg st"

fun computeEach :: "js_env \<Rightarrow> nat \<Rightarrow> statref list \<Rightarrow> state \<Rightarrow> state outcome" where
  "computeEach env n [] st = ret st"
| "computeEach env n (r # rs) st =
     andThen (computeStat env n (Some r) st) (computeEach env n rs)"

definition computeCharacter :: "js_env \<Rightarrow> nat \<Rightarrow> state \<Rightarrow> state outcome" where
  "computeCharacter env n st =
     computeEach env n
       (map (AttRef \<circ> fst) (atts st) @ map (SkillRef \<circ> fst) (skills st) @ map (DmRef \<circ> fst) (dms st))
       st"

text \<open>\<^verbatim>\<open>computeCharacterById\<close> without the write-back.\<close>

definition recompute :: "js_env \<Rightarrow> nat \<Rightarrow> database \<Rightarrow> state outcome" where
  "recompute env n db =
     (case buildCharacter env db of
        Inl e \<Rightarrow> throw e
      | Inr st \<Rightarrow> computeCharacter env n st)"

section \<open>The combination rules as stated\<close>

text \<open>
  The closed forms of the combiners, on numbers and in the arithmetic of the code:
  clamping (a value below \<open>lo\<close> is raised to \<open>lo\<close>, and the outcome of that is lowered to
  \<open>hi\<close> when it is above \<open>hi\<close>), the value of an attribute, the modifier of an ability,
  the default proficiency bonus and the value of a skill.
\<close>

definition clamped :: "jsnum \<Rightarrow> jsnum \<Rightarrow> jsnum \<Rightarrow> jsnum" where
  "clamped lo hi x = (let y = (if jlt x lo then lo else x) in if jlt hi y then hi else y)"

definition attribute_value ::
  "js_env \<Rightarrow> jsnum \<Rightarrow> jsnum \<Rightarrow> jsnum \<Rightarrow> jsnum \<Rightarrow> jsnum \<Rightarrow> bool \<Rightarrow> jsnum" where
  "attribute_value env b a m lo hi dec =
     (if dec then clamped lo hi (jmul env (jadd env b a) m)
      else jfloor (clamped lo hi (jmul env (jadd env b a) m)))"

definition ability_modifier :: "js_env \<Rightarrow> jsnum \<Rightarrow> jsnum" where
  "ability_modifier env r = jfloor (jdiv env (jsub env r (Fin 10)) (Fin 2))"

definition default_proficiency_bonus :: "js_env \<Rightarrow> jsnum \<Rightarrow> jsnum" where
  "default_proficiency_bonus env lvl = jfloor (jadd env (jdiv env lvl (Fin 4)) (Fin (7 / 4)))"

definition skill_value ::
  "js_env \<Rightarrow> jsnum \<Rightarrow> jsnum \<Rightarrow> jsnum \<Rightarrow> jsnum \<Rightarrow> jsnum \<Rightarrow> jsnum \<Rightarrow> jsnum \<Rightarrow> jsnum" where
  "skill_value env am bonus p a m lo hi =
     jfloor (clamped lo hi (jmul env (jadd env (jadd env am (jmul env bonus p)) a) m))"

text \<open>
  The proficiency bonus as stated: the default one when the character has no skill
  \<^verbatim>\<open>proficiencyBonus\<close>, the result of that skill otherwise.
\<close>

definition stated_proficiency_bonus :: "js_env \<Rightarrow> state \<Rightarrow> jsval" where
  "stated_proficiency_bonus env st =
     (case map_of (skills st) ''proficiencyBonus'' of
        None \<Rightarrow> VNum (default_proficiency_bonus env (level st))
      | Some pb \<Rightarrow> result pb)"

text \<open>
  The ability modifier of a skill, and the state of the character it is read in: 0
  without an ability or without the attribute it names, the modifier of that attribute
  when it is computed, and otherwise its modifier once \<open>force\<close> has computed it. \<open>None\<close>:
  that computation does not return the attribute.
\<close>

definition ability_modifier_of :: "forcer \<Rightarrow> state \<Rightarrow> stat \<Rightarrow> (state \<times> jsnum) option" where
  "ability_modifier_of force st s =
     (case ability s of
        None \<Rightarrow> Some (st, Fin 0)
      | Some a \<Rightarrow>
          (case map_of (atts st) a of
             None \<Rightarrow> Some (st, Fin 0)
           | Some x \<Rightarrow>
               if a = [] then Some (st, Fin 0)
               else if computed x then Some (st, stat_mod x)
               else (case force (Some (AttRef a)) st of
                       Some (Inr st') \<Rightarrow> map_option (\<lambda>x'. (st', stat_mod x')) (map_of (atts st') a)
                     | Some (Inl e) \<Rightarrow> None
                     | None \<Rightarrow> None)))"

section \<open>Sample characters\<close>

text \<open>The result of a stat after a run, when the run returned.\<close>

definition resultOf :: "state outcome \<Rightarrow> statref \<Rightarrow> jsval option" where
  "resultOf out r =
     (case out of Some (Inr st) \<Rightarrow> map_option result (get_stat st r) | Some (Inl e) \<Rightarrow> None | None \<Rightarrow> None)"

definition built :: "js_env \<Rightarrow> database \<Rightarrow> state" where
  "built env db = (case buildCharacter env db of Inr st \<Rightarrow> st | Inl e \<Rightarrow> empty_character env)"

definition plain_attribute :: "string \<Rightarrow> raw_attribute" where
  "plain_attribute k =
     \<lparr>att_variableName = k, att_type = ''stat'', att_baseValue = None, att_decimal = False\<rparr>"

definition plain_effect ::
  "string \<Rightarrow> string \<Rightarrow> jsnum option \<Rightarrow> string option \<Rightarrow> raw_effect" where
  "plain_effect k op v c =
     \<lparr>effect_stat = k, effect_operation = op, effect_value = v, effect_calculation = c,
      effect_enabled = True\<rparr>"

text \<open>One attribute \<^verbatim>\<open>a\<close> whose only effect adds the formula \<^verbatim>\<open>a\<close>.\<close>

definition cyclic_db :: database where
  "cyclic_db =
     \<lparr>Attributes = [plain_attribute ''a''], Skills = [], DamageMultipliers = [], Classes = [],
      Effects = [plain_effect ''a'' ''add'' None (Some ''a'')], Proficiencies = []\<rparr>"

text \<open>
  A host to run the examples on, in a fresh realm. Its evaluator accepts a sum of unsigned
  decimal literals and rejects every other string; the examples never reach its rounding
  and its two conversions.
\<close>

definition trim :: "string \<Rightarrow> string" where
  "trim s = rev (dropWhile (\<lambda>c. c = CHR '' '') (rev (dropWhile (\<lambda>c. c = CHR '' '') s)))"

fun splitOn :: "char \<Rightarrow> string \<Rightarrow> string list" where
  "splitOn d [] = [[]]"
| "splitOn d (c # cs) =
     (if c = d then [] # splitOn d cs
      else (case splitOn d cs of [] \<Rightarrow> [[c]] | w # ws \<Rightarrow> (c # w) # ws))"

definition parseNat :: "string \<Rightarrow> nat option" where
  "parseNat s =
     (if s \<noteq> [] \<and> list_all isDigit s
      then Some (natOfDigits s) else None)"

definition sumEval :: "string \<Rightarrow> jsval option" where
  "sumEval s =
     (case those (map (parseNat \<circ> trim) (splitOn CHR ''+'' s)) of
        Some ns \<Rightarrow> Some (VNum (Fin (of_nat (sum_list ns))))
      | None \<Rightarrow> None)"

definition sampleEnv :: js_env where
  "sampleEnv =
     \<lparr>mathEval = sumEval, roundToDouble = (\<lambda>q. NaN), numberToString = (\<lambda>q. ''?''),
      stringToNumber = (\<lambda>s. NaN), objectComputed = False\<rparr>"

text \<open>
  Two attributes \<^verbatim>\<open>a\<close> and \<^verbatim>\<open>b\<close>, returned by the query in the given order. \<^verbatim>\<open>a\<close> has
  the effects \<^verbatim>\<open>add 5\<close> and \<^verbatim>\<open>passiveAdd\<close> of the formula \<^verbatim>\<open>b\<close> (an operation attributes
  ignore), \<^verbatim>\<open>b\<close> has the effect \<^verbatim>\<open>add 1\<close>.
\<close>

definition order_db :: "string list \<Rightarrow> database" where
  "order_db order =
     \<lparr>Attributes = map plain_attribute order, Skills = [], DamageMultipliers = [], Classes = [],
      Effects = [plain_effect ''a'' ''add'' (Some (Fin 5)) None,
                 plain_effect ''a'' ''passiveAdd'' None (Some ''b''),
                 plain_effect ''b'' ''add'' (Some (Fin 1)) None],
      Proficiencies = []\<rparr>"

text \<open>A skill and an enabled proficiency in it; a saving throw and an enabled proficiency in it.\<close>

definition proficient_db :: database where
  "proficient_db =
     \<lparr>Attributes = [],
      Skills = [\<lparr>skill_variableName = ''athletics'', skill_ability = None\<rparr>],
      DamageMultipliers = [], Classes = [], Effects = [],
      Proficiencies =
        [\<lparr>prof_name = ''athletics'', prof_value = Fin 1, prof_type = ''skill'',
          prof_enabled = True\<rparr>]\<rparr>"

definition save_proficiency :: raw_proficiency where
  "save_proficiency =
     \<lparr>prof_name = ''strengthSave'', prof_value = Fin 2, prof_type = ''save'', prof_enabled = True\<rparr>"

definition save_db :: database where
  "save_db =
     \<lparr>Attributes = [],
      Skills = [\<lparr>skill_variableName = ''strengthSave'', skill_ability = Some ''strength''\<rparr>],
      DamageMultipliers = [], Classes = [], Effects = [],
      Proficiencies = [save_proficiency]\<rparr>"

text \<open>
  An attribute \<^verbatim>\<open>armor\<close> whose effect adds the formula \<^verbatim>\<open>strengthMod + 2\<close>, and after it
  the ability \<^verbatim>\<open>strength\<close> with base value 16.
\<close>

definition modifier_db :: database where
  "modifier_db =
     \<lparr>Attributes = [plain_attribute ''armor'',
                    (plain_attribute ''strength'')
                      \<lparr>att_type := ''ability'', att_baseValue := Some (Fin 16)\<rparr>],
      Skills = [], DamageMultipliers = [], Classes = [],
      Effects = [plain_effect ''armor'' ''add'' None (Some ''strengthMod + 2'')],
      Proficiencies = []\<rparr>"

text \<open>Two computed attributes whose names differ in case only.\<close>

definition twin_state :: state where
  "twin_state =
     (empty_character sampleEnv)
       \<lparr>atts := [(''Str'', (blank_stat Attribute)\<lparr>computed := True, result := VNum (Fin 9)\<rparr>),
                 (''str'', (blank_stat Attribute)\<lparr>computed := True, result := VNum (Fin 7)\<rparr>)]\<rparr>"

text \<open>A character of total level 3 without stats.\<close>

definition leveled_state :: state where
  "leveled_state = (empty_character sampleEnv)\<lparr>level := Fin 3\<rparr>"

text \<open>
  The attribute of the example \<^verbatim>\<open>base=10, add=2, mul=1.5\<close>, and an ability with base
  value 14.
\<close>

definition example_attribute :: stat where
  "example_attribute =
     (blank_stat Attribute)\<lparr>base := VNum (Fin 10), add := VNum (Fin 2), mul := Fin (3 / 2)\<rparr>"

definition example_ability :: stat where
  "example_ability = (blank_stat Attribute)\<lparr>attributeType := ''ability'', base := VNum (Fin 14)\<rparr>"

text \<open>
  The character of the skill example: total level 5, the ability \<^verbatim>\<open>strength\<close> with base
  value 14 (modifier 2), and the skill \<^verbatim>\<open>athletics\<close> on it with one proficiency of
  value 1. In \<open>skilled_ready\<close> the ability is computed already.
\<close>

definition athletics :: stat where
  "athletics = (blank_stat Skill)\<lparr>ability := Some ''strength'', proficiencies := [Fin 1]\<rparr>"

definition skilled_state :: state where
  "skilled_state =
     (empty_character sampleEnv)
       \<lparr>atts := [(''strength'', example_ability)],
        skills := [(''athletics'', athletics)],
        level := Fin 5\<rparr>"

definition skilled_ready :: state where
  "skilled_ready =
     (empty_character sampleEnv)
       \<lparr>atts := [(''strength'', example_ability
                    \<lparr>computed := True, result := VNum (Fin 14), stat_mod := Fin 2\<rparr>)],
        skills := [(''athletics'', athletics)],
        level := Fin 5\<rparr>"

text \<open>
  The ability \<^verbatim>\<open>strength\<close> computed, with value 16 and modifier 3, and with value 10
  and modifier 0.
\<close>

definition strong_state :: state where
  "strong_state =
     (empty_character sampleEnv)
       \<lparr>atts := [(''strength'', example_ability
                    \<lparr>computed := True, result := VNum (Fin 16), stat_mod := Fin 3\<rparr>)]\<rparr>"

definition average_state :: state where
  "average_state =
     (empty_character sampleEnv)
       \<lparr>atts := [(''strength'', example_ability
                    \<lparr>computed := True, result := VNum (Fin 10), stat_mod := Fin 0\<rparr>)]\<rparr>"

text \<open>
  An attribute \<^verbatim>\<open>armor\<close> with base value 10 whose only effect adds the empty formula.
\<close>

definition blank_formula_db :: database where
  "blank_formula_db =
     \<lparr>Attributes = [(plain_attribute ''armor'')\<lparr>att_baseValue := Some (Fin 10)\<rparr>],
      Skills = [], DamageMultipliers = [], Classes = [],
      Effects = [plain_effect ''armor'' ''add'' None (Some [])],
      Proficiencies = []\<rparr>"

text \<open>
  The ability \<^verbatim>\<open>strength\<close> with base value 14 and the skill \<^verbatim>\<open>athletics\<close> on it, whose
  only effect adds the empty formula.
\<close>

definition blank_skill_db :: database where
  "blank_skill_db =
     \<lparr>Attributes = [(plain_attribute ''strength'')
                      \<lparr>att_type := ''ability'', att_baseValue := Some (Fin 14)\<rparr>],
      Skills = [\<lparr>skill_variableName = ''athletics'', skill_ability = Some ''strength''\<rparr>],
      DamageMultipliers = [], Classes = [],
      Effects = [plain_effect ''athletics'' ''add'' None (Some [])],
      Proficiencies = []\<rparr>"


text \<open>The stat after a run, when the run returned.\<close>

definition statOf :: "state outcome \<Rightarrow> statref \<Rightarrow> stat option" where
  "statOf out r = (case out of Some (Inr st) \<Rightarrow> get_stat st r | Some (Inl e) \<Rightarrow> None | None \<Rightarrow> None)"

text \<open>
  The character of the skill example once \<^verbatim>\<open>combineSkill\<close> has taken the proficiency
  level of \<^verbatim>\<open>athletics\<close> and has had \<^verbatim>\<open>strength\<close> computed.
\<close>

definition skilled_forced :: state where
  "skilled_forced =
     (empty_character sampleEnv)
       \<lparr>atts := [(''strength'', example_ability
                    \<lparr>computed := True, result := VNum (Fin 14), stat_mod := Fin 2\<rparr>)],
        skills := [(''athletics'', athletics\<lparr>proficiency := Fin 1\<rparr>)],
        level := Fin 5\<rparr>"

text \<open>
  A character with the attribute of the example as \<^verbatim>\<open>armor\<close>, the ability as
  \<^verbatim>\<open>strength\<close>, and an attribute \<^verbatim>\<open>speed\<close> of base value 7 whose bounds cross: min 10,
  max 5.
\<close>

definition crossed_attribute :: stat where
  "crossed_attribute =
     (blank_stat Attribute)
       \<lparr>base := VNum (Fin 7), stat_min := VNum (Fin 10), stat_max := VNum (Fin 5)\<rparr>"

definition example_state :: state where
  "example_state =
     (empty_character sampleEnv)
       \<lparr>atts := [(''armor'', example_attribute), (''strength'', example_ability),
                 (''speed'', crossed_attribute)]\<rparr>"

section \<open>Unfolding\<close>

lemmas build_defs = buildCharacter_def selected_proficiencies_def add_attribute_def add_skill_def
  add_damage_multiplier_def add_class_def add_effect_def stored_effect_def push_effect_def
  empty_character_def new_attribute_def new_skill_def new_damage_multiplier_def blank_stat_def
  plain_attribute_def plain_effect_def built_def

lemmas run_defs = ret_def throw_def andThen_def withStat_def effectAt_def applyEffectAt_def
  applyEffect_def has_base_def has_accumulators_def has_counters_def combineAttribute_def
  combineDamageMultiplier_def resolve_def forceThenRead_def replacer_def evaluateCalculation_def
  effectResult_def setEffect_def computeEffect_def combineStat_def computeStatBody_def
  att_ref_def skill_ref_def dm_ref_def js_add_def js_mul_def js_gt_def js_floor_def jsub_def
  toDouble_def exactDouble_def

lemmas token_defs = tokenize_def matchAt_def wordBoundary_def charAt_def isWordChar_def
  inTokenClass_def isLower_def isUpper_def isDigit_def toLowerCase_def charToLower_def
  isModifierName_def isClassLevelName_def className_def endsWith_def dropLast_def

lemma map_of_alist_put:
  "map_of (alist_put k v xs) k' = (if k' = k then Some v else map_of xs k')"
  by (induction xs) auto

lemma alist_put_twice: "alist_put k v (alist_put k w xs) = alist_put k v xs"
  by (induction xs) auto

section \<open>Dependency cycles\<close>

lemma tokenize_a: "tokenize ''a'' = [Tok ''a'']"
  by (simp add: token_defs)

text \<open>
  Nothing sets \<^verbatim>\<open>busyComputing\<close> to \<^verbatim>\<open>true\<close>, so the activation of \<^verbatim>\<open>computeStat\<close> for
  \<^verbatim>\<open>a\<close> reaches, through its effect's formula, a new activation for \<^verbatim>\<open>a\<close> in the same
  state, whatever room the call stack has.
\<close>

lemma cyclic_computeStat:
  "computeStat env n (Some (AttRef ''a'')) ((built env cyclic_db)\<lparr>global_i := g\<rparr>) = None"
proof (induction n arbitrary: g)
  case 0
  show ?case by simp
next
  case (Suc n)
  have "computeStat env n (Some (AttRef ''a'')) ((built env cyclic_db)\<lparr>global_i := 0\<rparr>) = None"
    by (rule Suc.IH)
  then show ?case
    by (simp add: cyclic_db_def build_defs run_defs tokenize_a toLowerCase_def charToLower_def)
qed

text \<open>
  C1. The claim: a character whose stats contain a dependency cycle is still recomputed,
  the stats of the cycle ending computed with result NaN. The code: for the character
  with one attribute \<^verbatim>\<open>a\<close> whose effect adds the formula \<^verbatim>\<open>a\<close>, the recompute pass does
  not return, for any host and any depth of call stack.
\<close>

theorem cyclic_recompute_diverges: "recompute env n cyclic_db = None"
  using cyclic_computeStat [of env n 0]
  by (simp add: recompute_def computeCharacter_def cyclic_db_def build_defs andThen_def)

section \<open>Damage multipliers\<close>

text \<open>
  The combiner on a damage multiplier as \<^verbatim>\<open>buildCharacter\<close> creates it, had it the three
  counts \<open>i\<close>, \<open>r\<close> and \<open>v\<close>: the bare \<^verbatim>\<open>return 0\<close> of the immunity branch leaves the result
  at its initial value 0.
\<close>

lemma combineDamageMultiplier_result:
  "result (combineDamageMultiplier
     (new_damage_multiplier\<lparr>immunityCount := i, ressistanceCount := r, vulnerabilityCount := v\<rparr>)) =
   VNum (Fin (if i \<noteq> 0 then 0
              else if r \<noteq> 0 \<and> v = 0 then 1 / 2
              else if r = 0 \<and> v \<noteq> 0 then 2
              else 1))"
  by (simp add: combineDamageMultiplier_def new_damage_multiplier_def blank_stat_def)

text \<open>
  No effect changes a damage multiplier. The branch of \<^verbatim>\<open>applyEffect\<close> that counts
  immunities, resistances and vulnerabilities is behind the test
  \<^verbatim>\<open>if (!_.has(stat, "mul")) return;\<close>, and a damage multiplier has no field \<^verbatim>\<open>mul\<close>.
\<close>

lemma applyEffect_damage_multiplier:
  "stat_type s = DamageMultiplier \<Longrightarrow> applyEffect env e s = Inr s"
  by (simp add: applyEffect_def has_base_def has_accumulators_def has_counters_def)

text \<open>
  Through \<^verbatim>\<open>computeStat\<close>: a damage multiplier without effects is combined and marked
  computed.
\<close>

lemma computeStat_damage_multiplier:
  assumes "map_of (dms st) k = Some s" and "stat_type s = DamageMultiplier"
    and "\<not> computed s" and "\<not> busyComputing s" and "effects s = []"
  shows "computeStat env (Suc n) (Some (DmRef k)) st =
           ret (put_stat (DmRef k)
                  ((combineDamageMultiplier s)\<lparr>computed := True, busyComputing := False\<rparr>) st)"
  using assms
  by (simp add: computeStatBody_def withStat_def combineStat_def andThen_def ret_def
      map_of_alist_put alist_put_twice)


section \<open>Attributes\<close>

lemma combineAttribute_value:
  assumes "base s = VNum b" and "add s = VNum a" and "stat_min s = VNum lo"
    and "stat_max s = VNum hi"
  shows "combineAttribute env s =
           s\<lparr>result := VNum (attribute_value env b a (mul s) lo hi (decimal s)),
             stat_mod :=
               (if attributeType s = ''ability''
                then ability_modifier env (attribute_value env b a (mul s) lo hi (decimal s))
                else stat_mod s)\<rparr>"
  using assms
  by (auto simp: combineAttribute_def attribute_value_def ability_modifier_def clamped_def
      js_add_def js_mul_def js_gt_def js_floor_def Let_def)

text \<open>
  C4, as amended. For an attribute whose base, add, min and max are numbers, the
  combiner returns and changes two fields of the attribute: the result becomes
  (base + add) * mul, raised to min when below it and then lowered to max when above it,
  floored unless the attribute is decimal; and for an ability the modifier becomes
  floor((result - 10) / 2). The operations are those of the host's double arithmetic.
\<close>

theorem attribute_combination:
  assumes "map_of (atts st) k = Some s" and "stat_type s = Attribute"
    and "base s = VNum b" and "add s = VNum a" and "stat_min s = VNum lo"
    and "stat_max s = VNum hi"
  shows "combineStat env force (AttRef k) st =
           ret (put_stat (AttRef k)
                 (s\<lparr>result := VNum (attribute_value env b a (mul s) lo hi (decimal s)),
                    stat_mod :=
                      (if attributeType s = ''ability''
                       then ability_modifier env (attribute_value env b a (mul s) lo hi (decimal s))
                       else stat_mod s)\<rparr>)
                 st)"
  using assms(1,2) combineAttribute_value [OF assms(3-6), of env]
  by (simp add: combineStat_def withStat_def)

text \<open>
  The examples: base 10, add 2, mul 1.5 without bounds gives 18; an ability of value 14
  has modifier 2; the value 7 between the crossing bounds min 10 and max 5 becomes 5.
\<close>

theorem attribute_combination_witness:
  "map_of (atts example_state) ''armor'' = Some example_attribute \<and>
   stat_type example_attribute = Attribute \<and>
   base example_attribute = VNum (Fin 10) \<and> add example_attribute = VNum (Fin 2) \<and>
   mul example_attribute = Fin (3 / 2) \<and> \<not> decimal example_attribute \<and>
   stat_min example_attribute = VNum NInf \<and> stat_max example_attribute = VNum PInf \<and>
   resultOf (combineStat sampleEnv (computeStat sampleEnv 0) (AttRef ''armor'') example_state)
     (AttRef ''armor'') = Some (VNum (Fin 18)) \<and>
   map_option (\<lambda>s. (result s, stat_mod s))
     (statOf (combineStat sampleEnv (computeStat sampleEnv 0) (AttRef ''strength'') example_state)
        (AttRef ''strength'')) = Some (VNum (Fin 14), Fin 2) \<and>
   resultOf (combineStat sampleEnv (computeStat sampleEnv 0) (AttRef ''speed'') example_state)
     (AttRef ''speed'') = Some (VNum (Fin 5))"
  using attribute_combination [of example_state "''armor''" example_attribute "Fin 10" "Fin 2"
      NInf PInf sampleEnv "computeStat sampleEnv 0"]
    attribute_combination [of example_state "''strength''" example_ability "Fin 14" "Fin 0"
      NInf PInf sampleEnv "computeStat sampleEnv 0"]
    attribute_combination [of example_state "''speed''" crossed_attribute "Fin 7" "Fin 0"
      "Fin 10" "Fin 5" sampleEnv "computeStat sampleEnv 0"]
  by (simp add: example_state_def example_attribute_def example_ability_def
      crossed_attribute_def empty_character_def blank_stat_def attribute_value_def
      ability_modifier_def clamped_def jsub_def toDouble_def exactDouble_def resultOf_def
      statOf_def ret_def)

text \<open>
  C4 as stated is for every attribute. The attribute \<^verbatim>\<open>armor\<close> with base value 10
  whose only effect adds the empty formula ends the recompute pass with base 10, with
  the text \<^verbatim>\<open>0\<close> as its add (the sum of the number 0 and the empty text that the formula
  evaluates to), with mul 1, without bounds, and with result 100: the text \<^verbatim>\<open>100\<close> that
  joins base and add, as a number. The stated formula gives 10 on these values.
\<close>

theorem blank_formula_counterexample:
  "map_option (\<lambda>s. (base s, add s, mul s, stat_min s, stat_max s, decimal s, result s))
     (statOf (recompute sampleEnv (Suc 0) blank_formula_db) (AttRef ''armor'')) =
   Some (VNum (Fin 10), VStr ''0'', Fin 1, VNum NInf, VNum PInf, False, VNum (Fin 100)) \<and>
   attribute_value sampleEnv (Fin 10) (toNumber sampleEnv (VStr ''0'')) (Fin 1) NInf PInf False =
     Fin 10"
  by (simp add: recompute_def computeCharacter_def blank_formula_db_def build_defs run_defs
      statOf_def attribute_value_def clamped_def isDigit_def natOfDigits_def intToString_def
      sampleEnv_def)

section \<open>Skills\<close>

lemma abilityMod_stated:
  assumes "ability_modifier_of force st s = Some (st', am)"
  shows "abilityMod force s st = ret (st', VNum am)"
  using assms
  by (auto simp: abilityMod_def ability_modifier_of_def forceThenRead_def withStat_def
      andThen_def ret_def att_ref_def split: option.splits if_splits sum.splits)

lemma profBonus_default:
  assumes "map_of (skills st) ''proificiencyBonus'' = None"
  shows "profBonus env force st = ret (st, VNum (default_proficiency_bonus env (level st)))"
  using assms by (simp add: profBonus_def default_proficiency_bonus_def)

lemma skillResult_value:
  assumes "add s = VNum a" and "stat_min s = VNum lo" and "stat_max s = VNum hi"
  shows "skillResult env (VNum am) (js_mul env (VNum bonus) (VNum p)) s =
           s\<lparr>result := VNum (skill_value env am bonus p a (mul s) lo hi)\<rparr>"
  using assms
  by (auto simp: skillResult_def skill_value_def clamped_def js_add_def js_mul_def js_gt_def
      js_floor_def Let_def)

text \<open>
  A skill named \<^verbatim>\<open>proficiencyBonus\<close> is not consulted: the test looks for
  \<^verbatim>\<open>proificiencyBonus\<close>, so the default bonus is used.
\<close>

lemma defined_proficiencyBonus_unused:
  assumes "map_of (skills st) ''proficiencyBonus'' = Some b"
    and "map_of (skills st) ''proificiencyBonus'' = None"
  shows "profBonus env force st = ret (st, VNum (default_proficiency_bonus env (level st)))"
  using assms(2) by (rule profBonus_default)

text \<open>
  A skill stored under \<^verbatim>\<open>proificiencyBonus\<close> sends \<^verbatim>\<open>combineSkill\<close> to read
  \<^verbatim>\<open>char.skills.proficiencyBonus.computed\<close>, which raises when there is no such skill.
\<close>

lemma misspelt_proficiencyBonus_raises:
  assumes "map_of (skills st) ''proificiencyBonus'' = Some b"
    and "map_of (skills st) ''proficiencyBonus'' = None"
  shows "profBonus env force st = throw TypeError"
  using assms by (simp add: profBonus_def skill_ref_def)

text \<open>
  C5, as amended. Take a skill of a character that has no skill \<^verbatim>\<open>proficiencyBonus\<close> and
  none under the key \<^verbatim>\<open>proificiencyBonus\<close>. The combiner first raises the proficiency
  level of the skill to the largest of its proficiencies. The ability modifier is 0
  without an ability attribute and the modifier of that attribute otherwise, which is
  computed first when it is not computed yet; let that computation return. When the add,
  min and max of the skill are numbers then, the combiner returns with result =
  floor(clamp((abilityModifier + bonus * proficiencyLevel + add) * mul, min, max)), where
  the bonus is the stated one, floor(totalLevel / 4 + 1.75), clamping raises to min and
  then lowers to max, and the operations are those of the host's double arithmetic.
\<close>

theorem skill_combination:
  assumes "map_of (skills st) k = Some s" and "stat_type s = Skill"
    and "map_of (skills st) ''proficiencyBonus'' = None"
    and "map_of (skills st) ''proificiencyBonus'' = None"
    and "ability_modifier_of force (proficiencyLoop (SkillRef k) s st) s = Some (st', am)"
    and "map_of (skills st') k = Some s'"
    and "add s' = VNum a" and "stat_min s' = VNum lo" and "stat_max s' = VNum hi"
  shows "combineStat env force (SkillRef k) st =
           ret (put_stat (SkillRef k)
                 (s'\<lparr>result :=
                       VNum (skill_value env am (toNumber env (stated_proficiency_bonus env st))
                               (largestProficiency (proficiencies s) (proficiency s))
                               a (mul s') lo hi)\<rparr>)
                 st')"
proof -
  define p where "p = largestProficiency (proficiencies s) (proficiency s)"
  define s1 where "s1 = s\<lparr>proficiency := p\<rparr>"
  define st1 where "st1 = proficiencyLoop (SkillRef k) s st"
  define bonus where "bonus = default_proficiency_bonus env (level st)"
  have k: "k \<noteq> ''proificiencyBonus''"
    using assms(1,4) by auto
  have skills1: "skills st1 = alist_put k s1 (skills st)" and level1: "level st1 = level st"
    by (simp_all add: st1_def proficiencyLoop_def s1_def p_def)
  have get1: "map_of (skills st1) k = Some s1"
    by (simp add: skills1 map_of_alist_put)
  have p1: "proficiency s1 = p"
    by (simp add: s1_def)
  have typo1: "map_of (skills st1) ''proificiencyBonus'' = None"
    using assms(4) k by (simp add: skills1 map_of_alist_put)
  have am: "abilityMod force s1 st1 = ret (st', VNum am)"
  proof (rule abilityMod_stated)
    have "ability_modifier_of force st1 s1 = ability_modifier_of force st1 s"
      by (simp add: ability_modifier_of_def s1_def)
    then show "ability_modifier_of force st1 s1 = Some (st', am)"
      using assms(5) by (simp add: st1_def)
  qed
  have stated: "toNumber env (stated_proficiency_bonus env st) = bonus"
    using assms(3) by (simp add: stated_proficiency_bonus_def bonus_def)
  have "combineStat env force (SkillRef k) st = combineSkill env force (SkillRef k) st"
    using assms(1,2) by (simp add: combineStat_def withStat_def)
  also have "\<dots> =
          andThen (profBonus env force st1) (\<lambda>(st2, b).
            withStat st2 (SkillRef k) (\<lambda>s2.
              andThen (abilityMod force s2 st2) (\<lambda>(st3, m).
                withStat st3 (SkillRef k) (\<lambda>s3.
                  ret (put_stat (SkillRef k)
                        (skillResult env m (js_mul env b (VNum (proficiency s2))) s3)
                        st3)))))"
    using assms(1) by (simp add: combineSkill_def withStat_def st1_def Let_def)
  also have "\<dots> = ret (put_stat (SkillRef k)
      (skillResult env (VNum am) (js_mul env (VNum bonus) (VNum p)) s') st')"
    by (simp add: profBonus_default [OF typo1] am withStat_def get1 assms(6)
        andThen_def ret_def level1 bonus_def p1)
  also have "\<dots> = ret (put_stat (SkillRef k)
      (s'\<lparr>result := VNum (skill_value env am bonus p a (mul s') lo hi)\<rparr>) st')"
    by (simp add: skillResult_value [OF assms(7-9)])
  finally show ?thesis
    by (simp add: stated p_def)
qed

text \<open>
  The example: total level 5, proficiency level 1, ability modifier 2, add 0, mul 1.
  The bonus is floor(5 / 4 + 1.75) = 3 and the result is 5, with the ability computed
  beforehand (\<open>skilled_ready\<close>) and with the ability computed by the combiner
  (\<open>skilled_state\<close>).
\<close>

theorem skill_combination_witness:
  "map_of (skills skilled_ready) ''athletics'' = Some athletics \<and>
   map_of (skills skilled_state) ''athletics'' = Some athletics \<and>
   stat_type athletics = Skill \<and>
   map_of (skills skilled_ready) ''proficiencyBonus'' = None \<and>
   map_of (skills skilled_ready) ''proificiencyBonus'' = None \<and>
   ability_modifier_of (computeStat sampleEnv 0)
     (proficiencyLoop (SkillRef ''athletics'') athletics skilled_ready) athletics =
     Some (skilled_forced, Fin 2) \<and>
   ability_modifier_of (computeStat sampleEnv (Suc 0))
     (proficiencyLoop (SkillRef ''athletics'') athletics skilled_state) athletics =
     Some (skilled_forced, Fin 2) \<and>
   map_of (skills skilled_forced) ''athletics'' = Some (athletics\<lparr>proficiency := Fin 1\<rparr>) \<and>
   toNumber sampleEnv (stated_proficiency_bonus sampleEnv skilled_ready) = Fin 3 \<and>
   resultOf (combineStat sampleEnv (computeStat sampleEnv 0) (SkillRef ''athletics'') skilled_ready)
     (SkillRef ''athletics'') = Some (VNum (Fin 5)) \<and>
   resultOf (combineStat sampleEnv (computeStat sampleEnv (Suc 0)) (SkillRef ''athletics'')
     skilled_state) (SkillRef ''athletics'') = Some (VNum (Fin 5))"
  using skill_combination [of skilled_ready "''athletics''" athletics "computeStat sampleEnv 0"
      skilled_forced "Fin 2" "athletics\<lparr>proficiency := Fin 1\<rparr>" "Fin 0" NInf PInf sampleEnv]
    skill_combination [of skilled_state "''athletics''" athletics "computeStat sampleEnv (Suc 0)"
      skilled_forced "Fin 2" "athletics\<lparr>proficiency := Fin 1\<rparr>" "Fin 0" NInf PInf sampleEnv]
  by (simp add: skilled_ready_def skilled_state_def skilled_forced_def athletics_def
      example_ability_def empty_character_def blank_stat_def ability_modifier_of_def
      proficiencyLoop_def stated_proficiency_bonus_def default_proficiency_bonus_def
      skill_value_def clamped_def largestProficiency_def resultOf_def run_defs Let_def)

text \<open>
  C5 as stated gives 4 for this example. Run on the character of the example,
  \<^verbatim>\<open>computeCharacter\<close> computes the ability (value 14, modifier 2) and then the skill,
  with result 5.
\<close>

lemma skilled_state_run:
  "resultOf (computeCharacter env (Suc (Suc n)) skilled_state) (SkillRef ''athletics'') =
     Some (VNum (Fin 5))"
  by (simp add: computeCharacter_def skilled_state_def athletics_def example_ability_def
      empty_character_def blank_stat_def resultOf_def run_defs combineSkill_def profBonus_def
      abilityMod_def skillResult_def largestProficiency_def proficiencyLoop_def Let_def)

text \<open>
  C5 as stated is also for every skill. The skill \<^verbatim>\<open>athletics\<close> on the ability
  \<^verbatim>\<open>strength\<close> (value 14, modifier 2), without proficiency and with one effect that adds
  the empty formula, ends the recompute pass with the text \<^verbatim>\<open>0\<close> as its add, with mul 1,
  without bounds, and with result 20: the text \<^verbatim>\<open>20\<close> that joins the modifier and the add,
  as a number. The stated formula gives 2 on these values.
\<close>

lemma blank_skill_run:
  "map_option (\<lambda>s. (proficiency s, add s, mul s, stat_min s, stat_max s, result s))
     (statOf (recompute env (Suc (Suc n)) blank_skill_db) (SkillRef ''athletics'')) =
   Some (Fin 0, VStr ''0'', Fin 1, VNum NInf, VNum PInf, VNum (Fin 20))"
  by (simp add: recompute_def computeCharacter_def blank_skill_db_def build_defs run_defs
      statOf_def combineSkill_def profBonus_def abilityMod_def skillResult_def
      largestProficiency_def proficiencyLoop_def Let_def isDigit_def natOfDigits_def
      intToString_def)

theorem skill_example_counterexample:
  "resultOf (computeCharacter sampleEnv (Suc (Suc 0)) skilled_state) (SkillRef ''athletics'') =
     Some (VNum (Fin 5)) \<and>
   resultOf (computeCharacter sampleEnv (Suc (Suc 0)) skilled_state) (SkillRef ''athletics'') \<noteq>
     Some (VNum (Fin 4)) \<and>
   map_option (\<lambda>s. (proficiency s, add s, mul s, stat_min s, stat_max s, result s))
     (statOf (recompute sampleEnv (Suc (Suc 0)) blank_skill_db) (SkillRef ''athletics'')) =
     Some (Fin 0, VStr ''0'', Fin 1, VNum NInf, VNum PInf, VNum (Fin 20)) \<and>
   skill_value sampleEnv (Fin 2) (default_proficiency_bonus sampleEnv (Fin 0)) (Fin 0)
     (toNumber sampleEnv (VStr ''0'')) (Fin 1) NInf PInf = Fin 2"
  by (simp add: skilled_state_run blank_skill_run skill_value_def default_proficiency_bonus_def
      clamped_def toDouble_def exactDouble_def isDigit_def natOfDigits_def)

section \<open>The builder and proficiencies\<close>

lemma skills_add_attributes: "skills (fold add_attribute xs st) = skills st"
  by (induction xs arbitrary: st) (simp_all add: add_attribute_def)

lemma skills_add_damage_multipliers: "skills (fold add_damage_multiplier xs st) = skills st"
  by (induction xs arbitrary: st) (simp_all add: add_damage_multiplier_def)

lemma skills_add_classes: "skills (fold (add_class env) xs st) = skills st"
  by (induction xs arbitrary: st) (simp_all add: add_class_def)

lemma skill_names_add_skills:
  "dom (map_of (skills (fold add_skill ks st))) =
     dom (map_of (skills st)) \<union> skill_variableName ` set ks"
  by (induction ks arbitrary: st) (auto simp: add_skill_def dom_def)

lemma skill_names_add_effect:
  "dom (map_of (skills (add_effect e st))) = dom (map_of (skills st))"
  by (auto simp: add_effect_def map_of_alist_put dom_def split: option.splits)

lemma skill_names_add_effects:
  "dom (map_of (skills (fold add_effect es st))) = dom (map_of (skills st))"
  by (induction es arbitrary: st) (simp_all add: skill_names_add_effect)

lemma built_skill_names:
  "dom (map_of (skills (fold add_effect es
         (fold (add_class env) cs
           (fold add_damage_multiplier ds
             (fold add_skill ks
               (fold add_attribute as (empty_character env)))))))) = skill_variableName ` set ks"
  by (simp add: skill_names_add_effects skills_add_classes skills_add_damage_multipliers
      skill_names_add_skills skills_add_attributes empty_character_def)

lemma add_proficiencies_raises:
  "p \<in> set ps \<Longrightarrow> prof_name p \<in> dom (map_of (skills st)) \<Longrightarrow>
     add_proficiencies ps st = Inl ReferenceError"
  by (induction ps) (auto simp: dom_def)

lemma add_proficiencies_returns: "add_proficiencies ps st = Inr st' \<Longrightarrow> st' = st"
  by (induction ps) (auto split: if_splits)

text \<open>No character that \<^verbatim>\<open>buildCharacter\<close> returns has a proficiency attached to a skill.\<close>

lemma set_alist_put: "set (alist_put k v xs) \<subseteq> insert (k, v) (set xs)"
  by (induction xs) (auto split: if_splits)

lemma unattached_add_skill: "unattached st \<Longrightarrow> unattached (add_skill x st)"
  by (simp add: unattached_def add_skill_def new_skill_def blank_stat_def)

lemma unattached_add_skills: "unattached st \<Longrightarrow> unattached (fold add_skill xs st)"
  by (induction xs arbitrary: st) (simp_all add: unattached_add_skill)

lemma unattached_add_effect:
  assumes "unattached st"
  shows "unattached (add_effect e st)"
proof (cases "map_of (atts st) (effect_stat e)")
  case (Some a)
  with assms show ?thesis by (simp add: add_effect_def unattached_def)
next
  case None
  show ?thesis
  proof (cases "map_of (skills st) (effect_stat e)")
    case (Some x)
    then have "(effect_stat e, x) \<in> set (skills st)"
      by (rule map_of_SomeD)
    with assms have "proficiencies (push_effect (stored_effect e) x) = []"
      by (auto simp: push_effect_def unattached_def list_all_iff)
    with assms None Some set_alist_put [of "effect_stat e"
        "push_effect (stored_effect e) x" "skills st"]
    show ?thesis by (auto simp: add_effect_def unattached_def list_all_iff)
  next
    case n2: None
    with assms None show ?thesis
      by (simp add: add_effect_def unattached_def split: option.splits)
  qed
qed

lemma unattached_add_effects: "unattached st \<Longrightarrow> unattached (fold add_effect es st)"
  by (induction es arbitrary: st) (simp_all add: unattached_add_effect)

lemma built_without_proficiencies:
  assumes "buildCharacter env db = Inr st" and "map_of (skills st) k = Some s"
  shows "proficiencies s = []"
proof -
  let ?st2 = "fold add_skill (Skills db)
     (fold add_attribute (Attributes db) (empty_character env))"
  let ?st5 = "fold add_effect (filter effect_enabled (Effects db))
     (fold (add_class env) (Classes db)
       (fold add_damage_multiplier (DamageMultipliers db) ?st2))"
  have "unattached (fold add_attribute (Attributes db) (empty_character env))"
    by (simp add: unattached_def skills_add_attributes empty_character_def)
  then have "unattached ?st2"
    by (rule unattached_add_skills)
  then have "unattached (fold (add_class env) (Classes db)
      (fold add_damage_multiplier (DamageMultipliers db) ?st2))"
    by (simp add: unattached_def skills_add_classes skills_add_damage_multipliers)
  then have "unattached ?st5"
    by (rule unattached_add_effects)
  moreover have "st = ?st5"
    using assms(1) unfolding buildCharacter_def by (rule add_proficiencies_returns)
  moreover have "(k, s) \<in> set (skills st)"
    using assms(2) by (rule map_of_SomeD)
  ultimately show ?thesis
    by (auto simp: unattached_def list_all_iff)
qed

text \<open>
  C7. The claim: the proficiency level of a skill is the largest level of the enabled
  skill and save proficiencies that name it. The code: whenever an enabled proficiency of
  type \<^verbatim>\<open>skill\<close> or \<^verbatim>\<open>save\<close> names a skill of the character, \<^verbatim>\<open>buildCharacter\<close> raises a
  ReferenceError and no character is built.
\<close>

theorem proficiency_attachment_raises:
  assumes "p \<in> set (Proficiencies db)" and "prof_enabled p"
    and "prof_type p = ''skill'' \<or> prof_type p = ''save''"
    and "prof_name p \<in> skill_variableName ` set (Skills db)"
  shows "buildCharacter env db = Inl ReferenceError"
  unfolding buildCharacter_def
proof (rule add_proficiencies_raises [of p])
  show "p \<in> set (selected_proficiencies db)"
    using assms(1-3) by (auto simp: selected_proficiencies_def)
  show "prof_name p \<in> dom (map_of (skills (fold add_effect (filter effect_enabled (Effects db))
     (fold (add_class env) (Classes db)
       (fold add_damage_multiplier (DamageMultipliers db)
         (fold add_skill (Skills db)
           (fold add_attribute (Attributes db) (empty_character env))))))))"
    using assms(4) by (simp only: built_skill_names)
qed

theorem proficiency_attachment_raises_witness:
  "save_proficiency \<in> set (Proficiencies save_db) \<and> prof_enabled save_proficiency \<and>
   prof_type save_proficiency = ''save'' \<and>
   prof_name save_proficiency \<in> skill_variableName ` set (Skills save_db) \<and>
   buildCharacter sampleEnv save_db = Inl ReferenceError"
  using proficiency_attachment_raises [of save_proficiency save_db sampleEnv]
  by (simp add: save_db_def save_proficiency_def)

text \<open>
  C3. The claim: the recompute pass never raises an exception and produces a result for
  every stat. The code: for the character with the skill \<^verbatim>\<open>athletics\<close> and an enabled
  proficiency in it, the pass raises a ReferenceError (in \<^verbatim>\<open>buildCharacter\<close>).
\<close>

theorem recompute_raises: "recompute env n proficient_db = throw ReferenceError"
  by (simp add: recompute_def proficient_db_def build_defs)

text \<open>
  The branch of \<^verbatim>\<open>applyEffect\<close> that reads the undeclared \<^verbatim>\<open>value\<close> is never reached:
  damage multipliers own no \<^verbatim>\<open>mul\<close> field, so the test before it returns.
\<close>

lemma applyEffect_returns: "\<exists>s'. applyEffect env e s = Inr s'"
  by (simp add: applyEffect_def has_accumulators_def)

section \<open>The order of the stats\<close>

lemma tokenize_b: "tokenize ''b'' = [Tok ''b'']"
  by (simp add: token_defs)

text \<open>
  C2. The claim: the results do not depend on the order in which the stats are
  enumerated. The code: with the attributes \<^verbatim>\<open>a\<close> (effects: add 5; passiveAdd of the
  formula \<^verbatim>\<open>b\<close>) and \<^verbatim>\<open>b\<close> (effect: add 1), the result of \<^verbatim>\<open>a\<close> is 10 when \<^verbatim>\<open>a\<close> is
  enumerated first and 5 when \<^verbatim>\<open>b\<close> is, for any host. In the first order the nested
  computation of \<^verbatim>\<open>b\<close> leaves 0 in the global \<^verbatim>\<open>i\<close>, and \<^verbatim>\<open>applyEffect(stat.effects[i], stat)\<close>
  applies the first effect of \<^verbatim>\<open>a\<close> a second time.
\<close>

theorem result_depends_on_order:
  "resultOf (recompute env (Suc (Suc n)) (order_db [''a'', ''b''])) (AttRef ''a'') =
     Some (VNum (Fin 10)) \<and>
   resultOf (recompute env (Suc (Suc n)) (order_db [''b'', ''a''])) (AttRef ''a'') =
     Some (VNum (Fin 5))"
  by (simp add: recompute_def computeCharacter_def order_db_def build_defs run_defs
      resultOf_def tokenize_b toLowerCase_def charToLower_def intToString_def Let_def
      split: option.splits)

section \<open>The expression evaluator\<close>

subsection \<open>Ability modifiers\<close>

lemma tokenize_strengthMod:
  "tokenize ''strengthMod + 2'' =
     [Tok ''strengthMod'', Lit CHR '' '', Lit CHR ''+'', Lit CHR '' '', Tok ''2'']"
  by (simp add: token_defs)

lemma lower_strengthMod: "toLowerCase ''strengthMod'' = ''strengthmod''"
  by (simp add: toLowerCase_def charToLower_def)

lemma isModifierName_strengthmod: "isModifierName ''strengthmod''"
  by (simp add: isModifierName_def endsWith_def dropLast_def isWordChar_def isLower_def)

lemma resolve_two:
  "resolve ((empty_character env)\<lparr>atts := [(''strength'', x)]\<rparr>) ''2'' = GiveUp"
  by (simp add: resolve_def empty_character_def isModifierName_def isClassLevelName_def
      className_def endsWith_def dropLast_def)

lemma resolve_strengthmod:
  "resolve ((empty_character env)\<lparr>atts := [(''strength'', x)]\<rparr>) ''strengthmod'' =
     ToModifier ''strength''"
  by (simp add: resolve_def empty_character_def isModifierName_strengthmod dropLast_def)

lemma sumEval_3_2: "mathEval sampleEnv ''3 + 2'' = Some (VNum (Fin 5))"
  by (simp add: sampleEnv_def sumEval_def parseNat_def natOfDigits_def trim_def isDigit_def)

text \<open>
  When the ability is computed already, with modifier 3, the formula
  \<^verbatim>\<open>strengthMod + 2\<close> becomes \<^verbatim>\<open>3 + 2\<close> and evaluates to 5.
\<close>

lemma modifier_example:
  "evaluateCalculation sampleEnv force ''strengthMod + 2'' strong_state =
     ret (strong_state, VNum (Fin 5))"
proof -
  have "replaceAll sampleEnv force (tokenize ''strengthMod + 2'') strong_state =
          ret (strong_state, ''3 + 2'')"
    unfolding strong_state_def
    by (simp add: tokenize_strengthMod lower_strengthMod resolve_strengthmod resolve_two
        replacer_def forceThenRead_def withStat_def andThen_def ret_def example_ability_def
        blank_stat_def toLowerCase_def charToLower_def intToString_def)
  then show ?thesis
    by (simp add: evaluateCalculation_def andThen_def ret_def sumEval_3_2)
qed

text \<open>A computed ability of value 10 has modifier 0, and \<^verbatim>\<open>mod || NaN\<close> substitutes NaN.\<close>

lemma zero_modifier_substitutes_NaN:
  "replaceAll env force (tokenize ''strengthMod + 2'') average_state =
     ret (average_state, ''NaN + 2'')"
  unfolding average_state_def
  by (simp add: tokenize_strengthMod lower_strengthMod resolve_strengthmod resolve_two
      replacer_def forceThenRead_def withStat_def andThen_def ret_def example_ability_def
      blank_stat_def toLowerCase_def charToLower_def intToString_def)

text \<open>
  C8. The claim: for a token ending in \<^verbatim>\<open>mod\<close> whose prefix names an attribute, the
  evaluator computes that attribute when it is not computed yet and substitutes its
  modifier. The code: when the attribute is not computed yet, the evaluator calls
  \<^verbatim>\<open>computeStat(char.atts[sub], char)\<close> with the whole token, which names no attribute,
  and \<^verbatim>\<open>computeStat\<close> raises a TypeError on \<^verbatim>\<open>undefined\<close>. So does the recompute pass
  of the character whose attribute \<^verbatim>\<open>armor\<close>, enumerated before the ability \<^verbatim>\<open>strength\<close>,
  adds \<^verbatim>\<open>strengthMod + 2\<close>.
\<close>

theorem modifier_of_uncomputed_raises:
  "evaluateCalculation env (computeStat env (Suc n)) ''strengthMod + 2'' (built env modifier_db) =
     throw TypeError \<and>
   recompute env (Suc (Suc n)) modifier_db = throw TypeError"
  by (simp add: recompute_def computeCharacter_def modifier_db_def build_defs run_defs
      tokenize_strengthMod lower_strengthMod isModifierName_strengthmod dropLast_def Let_def)

subsection \<open>The evaluation step\<close>

text \<open>
  Once the tokens of a formula are substituted, \<^verbatim>\<open>evaluateCalculation\<close> returns: the
  substituted, unevaluated string when the evaluator raises, and what the evaluator
  returns otherwise. The empty formula is not evaluated and is returned as it is. An
  exception that leaves \<^verbatim>\<open>evaluateCalculation\<close> is therefore never the evaluator's: it was
  raised during the substitution, by the computation of a stat the formula names.
\<close>

lemma evaluation_step:
  "(replaceAll env force (tokenize string) st = Some (Inr (st', substituted)) \<longrightarrow>
      evaluateCalculation env force string st =
        Some (Inr (st', case (if string = [] then None else mathEval env substituted) of
                          Some v \<Rightarrow> v
                        | None \<Rightarrow> VStr substituted))) \<and>
   (evaluateCalculation env force string st = Some (Inl e) \<longrightarrow>
      replaceAll env force (tokenize string) st = Some (Inl e))"
  by (auto simp: evaluateCalculation_def andThen_def ret_def tokenize_def
      split: option.splits sum.splits if_splits)

lemma tokenize_level:
  "tokenize ''level + 2'' =
     [Tok ''level'', Lit CHR '' '', Lit CHR ''+'', Lit CHR '' '', Tok ''2'']"
  by (simp add: token_defs)

lemma tokenize_foo:
  "tokenize ''foo + 2'' =
     [Tok ''foo'', Lit CHR '' '', Lit CHR ''+'', Lit CHR '' '', Tok ''2'']"
  by (simp add: token_defs)

lemma sumEval_foo: "mathEval sampleEnv ''foo + 2'' = None"
  by (simp add: sampleEnv_def sumEval_def parseNat_def trim_def isDigit_def)

text \<open>
  On a character of level 3: \<^verbatim>\<open>level + 2\<close> becomes \<^verbatim>\<open>3 + 2\<close> and evaluates to 5;
  \<^verbatim>\<open>foo + 2\<close> cannot be evaluated and comes back as text.
\<close>

lemma evaluation_examples:
  "evaluateCalculation sampleEnv force ''level + 2'' leveled_state =
     ret (leveled_state, VNum (Fin 5)) \<and>
   evaluateCalculation sampleEnv force ''foo + 2'' leveled_state =
     ret (leveled_state, VStr ''foo + 2'')"
proof -
  have "replaceAll sampleEnv force (tokenize ''level + 2'') leveled_state =
          ret (leveled_state, ''3 + 2'')"
    by (simp add: tokenize_level leveled_state_def empty_character_def replacer_def resolve_def
        andThen_def ret_def toLowerCase_def charToLower_def isModifierName_def
        isClassLevelName_def className_def endsWith_def dropLast_def intToString_def)
  moreover have "replaceAll sampleEnv force (tokenize ''foo + 2'') leveled_state =
          ret (leveled_state, ''foo + 2'')"
    by (simp add: tokenize_foo leveled_state_def empty_character_def replacer_def resolve_def
        andThen_def ret_def toLowerCase_def charToLower_def isModifierName_def
        isClassLevelName_def className_def endsWith_def dropLast_def intToString_def)
  ultimately show ?thesis
    by (simp add: evaluateCalculation_def andThen_def ret_def sumEval_3_2 sumEval_foo)
qed

lemma tokenize_strengthMod_foo:
  "tokenize ''strengthMod + foo'' =
     [Tok ''strengthMod'', Lit CHR '' '', Lit CHR ''+'', Lit CHR '' '', Tok ''foo'']"
  by (simp add: token_defs)

lemma tokenize_a_foo:
  "tokenize ''a + foo'' = [Tok ''a'', Lit CHR '' '', Lit CHR ''+'', Lit CHR '' '', Tok ''foo'']"
  by (simp add: token_defs)

lemma cyclic_computeStat_built:
  "computeStat env n (Some (AttRef ''a'')) (built env cyclic_db) = None"
  using cyclic_computeStat [of env n 0]
  by (simp add: cyclic_db_def build_defs)

text \<open>
  C9. The claim: \<^verbatim>\<open>evaluateCalculation\<close> never throws, and returns the substituted string
  when its arithmetic evaluation fails. The code, on two formulas that name the unknown
  \<^verbatim>\<open>foo\<close> and so cannot be evaluated: \<^verbatim>\<open>strengthMod + foo\<close>, on the character of C8 whose
  ability \<^verbatim>\<open>strength\<close> is not computed yet, raises a TypeError; \<^verbatim>\<open>a + foo\<close>, on the
  character of C1 whose attribute \<^verbatim>\<open>a\<close> adds the formula \<^verbatim>\<open>a\<close>, does not return, for any
  host and any depth of call stack.
\<close>

theorem evaluateCalculation_raises:
  "evaluateCalculation env (computeStat env (Suc n)) ''strengthMod + foo'' (built env modifier_db) =
     throw TypeError \<and>
   evaluateCalculation env (computeStat env n) ''a + foo'' (built env cyclic_db) = None"
proof
  show "evaluateCalculation env (computeStat env (Suc n)) ''strengthMod + foo''
          (built env modifier_db) = throw TypeError"
    by (simp add: modifier_db_def build_defs run_defs tokenize_strengthMod_foo
        lower_strengthMod isModifierName_strengthmod dropLast_def Let_def)
  have "replacer (computeStat env n) ''a'' (built env cyclic_db) = None"
    using cyclic_computeStat_built [of env n]
    by (simp add: replacer_def resolve_def forceThenRead_def withStat_def andThen_def
        att_ref_def toLowerCase_def charToLower_def cyclic_db_def build_defs)
  then show "evaluateCalculation env (computeStat env n) ''a + foo'' (built env cyclic_db) = None"
    by (simp add: evaluateCalculation_def tokenize_a_foo andThen_def)
qed

subsection \<open>Tokens and the names they can reach\<close>

lemma find_SomeD: "find P xs = Some x \<Longrightarrow> x \<in> set xs \<and> P x"
  by (induction xs) (auto split: if_splits)

lemma matchAt_bounds:
  assumes "matchAt prev s = Some l"
  shows "1 \<le> l \<and> l \<le> length (takeWhile inTokenClass s)"
  using assms by (auto simp: matchAt_def split: if_splits dest!: find_SomeD)

lemma take_within_takeWhile:
  "l \<le> length (takeWhile P s) \<Longrightarrow> list_all P (take l s)"
  by (induction s arbitrary: l) (auto simp: take_Cons split: nat.splits if_splits)

lemma scan_tokens:
  "Tok t \<in> set (scan prev k s) \<Longrightarrow> t \<noteq> [] \<and> list_all inTokenClass t"
proof (induction prev k s rule: scan.induct)
  case (1 prev skip)
  then show ?case by simp
next
  case (2 prev k c cs)
  then show ?case by simp
next
  case (3 prev c cs)
  show ?case
  proof (cases "matchAt prev (c # cs)")
    case None
    with 3 show ?thesis by auto
  next
    case (Some l)
    from matchAt_bounds [OF Some]
    have l: "1 \<le> l" "l \<le> length (takeWhile inTokenClass (c # cs))"
      by auto
    from take_within_takeWhile [OF l(2)] have "list_all inTokenClass (take l (c # cs))" .
    moreover have "take l (c # cs) \<noteq> []"
      using l(1) by auto
    ultimately show ?thesis
      using 3 Some by auto
  qed
qed

lemma lower_in_class:
  "inTokenClass c \<Longrightarrow>
     \<not> isUpper (charToLower c) \<and> charToLower c \<noteq> CHR ''0'' \<and> charToLower c \<noteq> CHR ''_''"
  unfolding inTokenClass_def isLower_def isUpper_def
  by (auto simp: charToLower_def)

lemma lowered_token_chars:
  assumes "list_all inTokenClass t" and "c \<in> set (toLowerCase t)"
  shows "\<not> isUpper c \<and> c \<noteq> CHR ''0'' \<and> c \<noteq> CHR ''_''"
  using assms lower_in_class by (auto simp: toLowerCase_def list_all_iff)

lemma charToLower_idem: "charToLower (charToLower c) = charToLower c"
  by (simp add: charToLower_def)

lemma toLowerCase_idem: "toLowerCase (toLowerCase t) = toLowerCase t"
  by (simp add: toLowerCase_def charToLower_idem)

text \<open>
  Of the property names of \<^verbatim>\<open>Object.prototype\<close> a lowercased token can only be
  \<^verbatim>\<open>constructor\<close>: each of the others holds an upper-case letter or an underscore.
\<close>

lemma inheritedKeys_chars:
  "list_all (\<lambda>k. k = ''constructor'' \<or> (\<exists>c \<in> set k. isUpper c \<or> c = CHR ''_'')) inheritedKeys"
  by (simp add: inheritedKeys_def isUpper_def)

lemma inherited_key_of_token:
  assumes "list_all inTokenClass t" and "toLowerCase t \<in> set inheritedKeys"
  shows "toLowerCase t = ''constructor''"
proof -
  have "\<forall>c \<in> set (toLowerCase t). \<not> isUpper c \<and> c \<noteq> CHR ''_''"
    using lowered_token_chars [OF assms(1)] by blast
  moreover have "toLowerCase t = ''constructor'' \<or>
      (\<exists>c \<in> set (toLowerCase t). isUpper c \<or> c = CHR ''_'')"
    using assms(2) inheritedKeys_chars unfolding list_all_iff by blast
  ultimately show ?thesis
    by blast
qed

text \<open>
  The token \<^verbatim>\<open>constructor\<close>, on a character without an attribute of this name, has
  \<^verbatim>\<open>computeStat\<close> called on the function \<^verbatim>\<open>Object\<close> and is replaced by \<^verbatim>\<open>undefined\<close>; the
  token \<^verbatim>\<open>constructorMod\<close> raises a TypeError the first time and is replaced by NaN
  once the function is marked computed.
\<close>

lemma lower_constructor: "toLowerCase ''constructor'' = ''constructor''"
  by (simp add: toLowerCase_def charToLower_def)

lemma lower_constructorMod: "toLowerCase ''constructorMod'' = ''constructormod''"
  by (simp add: toLowerCase_def charToLower_def)

lemma constructor_token:
  assumes "map_of (atts st) ''constructor'' = None"
  shows "replacer (computeStat env (Suc n)) ''constructor'' st =
           ret (if object_computed st then st else st\<lparr>object_computed := True\<rparr>, VUndef)"
  using assms
  by (simp add: replacer_def resolve_def lower_constructor computeStatBody_def andThen_def
      ret_def)

lemma constructorMod_token:
  assumes "map_of (atts st) ''constructor'' = None"
    and "map_of (atts st) ''constructormod'' = None"
  shows "replacer (computeStat env (Suc n)) ''constructorMod'' st =
           (if object_computed st then ret (st, VNum NaN) else throw TypeError)"
  using assms
  by (simp add: replacer_def resolve_def lower_constructorMod computeStatBody_def andThen_def
      ret_def throw_def att_ref_def isModifierName_def endsWith_def dropLast_def isWordChar_def
      isLower_def)

lemma resolve_key_chars:
  assumes "resolve st sub \<in> {ToAttribute k, ToModifier k, ToSkill k, ToDamageMultiplier k}"
  shows "set k \<subseteq> set sub"
  using assms
  by (auto simp: resolve_def dropLast_def split: if_splits dest: in_set_takeD)

text \<open>
  C10, as amended. Every token of a formula is a non-empty run of letters, commas and
  digits 1 to 9; the callback looks it up in lower case, so that it returns the same for
  two tokens that differ in case only; and it never resolves a token to a stat whose name
  holds an upper-case letter or the digit 0: such a stat is never substituted.
\<close>

theorem token_lookup_keys:
  assumes "Tok t \<in> set (tokenize string)" and "\<exists>c \<in> set k. isUpper c \<or> c = CHR ''0''"
  shows "t \<noteq> [] \<and> list_all inTokenClass t \<and>
         (\<forall>t'. toLowerCase t' = toLowerCase t \<longrightarrow> replacer force t st = replacer force t' st) \<and>
         replacer force t st = replacer force (toLowerCase t) st \<and>
         resolve st (toLowerCase t) \<notin>
           {ToAttribute k, ToModifier k, ToSkill k, ToDamageMultiplier k}"
proof -
  from assms(1) have t: "t \<noteq> []" "list_all inTokenClass t"
    using scan_tokens by (auto simp: tokenize_def)
  have same: "\<forall>t'. toLowerCase t' = toLowerCase t \<longrightarrow> replacer force t st = replacer force t' st"
    by (simp add: replacer_def)
  have "resolve st (toLowerCase t) \<notin>
          {ToAttribute k, ToModifier k, ToSkill k, ToDamageMultiplier k}"
  proof
    assume "resolve st (toLowerCase t) \<in>
              {ToAttribute k, ToModifier k, ToSkill k, ToDamageMultiplier k}"
    then have "set k \<subseteq> set (toLowerCase t)"
      by (rule resolve_key_chars)
    with assms(2) lowered_token_chars [OF t(2)] show False
      by blast
  qed
  moreover have "replacer force t st = replacer force (toLowerCase t) st"
    by (simp add: replacer_def toLowerCase_idem)
  ultimately show ?thesis
    using t same by blast
qed

lemma tokenize_Str: "tokenize ''Str'' = [Tok ''Str'']"
  by (simp add: token_defs)

lemma lower_Str: "toLowerCase ''Str'' = ''str''"
  by (simp add: toLowerCase_def charToLower_def)

lemma lower_str: "toLowerCase ''str'' = ''str''"
  by (simp add: toLowerCase_def charToLower_def)

lemma resolve_twin: "resolve twin_state ''str'' = ToAttribute ''str''"
  by (simp add: resolve_def twin_state_def empty_character_def)

lemma replacer_twin:
  "replacer force ''str'' twin_state = ret (twin_state, VNum (Fin 7))"
  by (simp add: lower_str resolve_def replacer_def forceThenRead_def withStat_def
      andThen_def ret_def twin_state_def empty_character_def blank_stat_def Let_def)

text \<open>
  With the computed attributes \<^verbatim>\<open>Str\<close> (result 9) and \<^verbatim>\<open>str\<close> (result 7): the token
  \<^verbatim>\<open>Str\<close> resolves to the attribute \<^verbatim>\<open>str\<close>, and the callback returns 7 for it as it does
  for \<^verbatim>\<open>str\<close>.
\<close>

theorem token_lookup_keys_witness:
  "Tok ''Str'' \<in> set (tokenize ''Str'') \<and> (\<exists>c \<in> set ''Str''. isUpper c \<or> c = CHR ''0'') \<and>
   toLowerCase ''Str'' = ''str'' \<and>
   resolve twin_state (toLowerCase ''Str'') = ToAttribute ''str'' \<and>
   resolve twin_state (toLowerCase ''Str'') \<notin>
     {ToAttribute ''Str'', ToModifier ''Str'', ToSkill ''Str'', ToDamageMultiplier ''Str''} \<and>
   replacer (computeStat sampleEnv 0) ''Str'' twin_state = ret (twin_state, VNum (Fin 7)) \<and>
   replacer (computeStat sampleEnv 0) ''str'' twin_state = ret (twin_state, VNum (Fin 7))"
  using token_lookup_keys [of "''Str''" "''Str''" "''Str''" "computeStat sampleEnv 0" twin_state]
  by (simp add: tokenize_Str lower_Str resolve_twin replacer_twin isUpper_def)

text \<open>
  C10 as stated has the reference to such a stat pass through as unresolved text. With
  the attributes \<^verbatim>\<open>Str\<close> (result 9) and \<^verbatim>\<open>str\<close> (result 7), the formula \<^verbatim>\<open>Str\<close> is
  rewritten to \<^verbatim>\<open>7\<close> and evaluates to the number 7.
\<close>

lemma twin_substitution:
  "replaceAll env force (tokenize ''Str'') twin_state = ret (twin_state, ''7'')"
  by (simp add: tokenize_Str lower_Str resolve_def replacer_def forceThenRead_def withStat_def
      andThen_def ret_def twin_state_def empty_character_def blank_stat_def intToString_def
      Let_def)

lemma sumEval_7: "mathEval sampleEnv ''7'' = Some (VNum (Fin 7))"
  by (simp add: sampleEnv_def sumEval_def parseNat_def natOfDigits_def trim_def isDigit_def)

theorem uppercase_reference_counterexample:
  "replaceAll sampleEnv (computeStat sampleEnv 0) (tokenize ''Str'') twin_state =
     ret (twin_state, ''7'') \<and>
   evaluateCalculation sampleEnv (computeStat sampleEnv 0) ''Str'' twin_state =
     ret (twin_state, VNum (Fin 7))"
  by (simp add: twin_substitution evaluateCalculation_def andThen_def ret_def sumEval_7)

end
